theory Spec2Isabelle
  imports Complex_Main
begin

section \<open>JavaScript values\<close>

text \<open>
  The services and the orchestrator read parsed JSON whose shape nothing checks (the
  TypeScript type of every response is \<open>any\<close>), so the model keeps the values as the
  runtime has them. An object is the list of its own enumerable properties in the order
  \<open>Object.entries\<close> lists them. \<open>undefined\<close> is \<open>None\<close> of \<open>json option\<close>.
  A string is the list of the bytes of its UTF-8 encoding, so it is well-formed text (a
  lone surrogate has no encoding).
\<close>

text \<open>The program does two things with a number of a parsed body: it tests it in a
  condition and it prints it into a string. A number is kept as what these two see of it:
  zero (of either sign, which prints as \<open>0\<close>), or a number other than zero with the text
  that \<open>String\<close> prints for it, whatever its size and its fraction. JSON has no \<open>NaN\<close>.\<close>

datatype number = Zero | Nonzero string

datatype json =
    JNull
  | JBool bool
  | JNum number
  | JStr string
  | JArr "json list"
  | JObj "(string \<times> json) list"

type_synonym jsval = "json option"

text \<open>What a \<open>throw\<close> carries: an \<open>Error\<close> (a \<open>TypeError\<close> is one) with its message, or
  any other value, for which \<open>instanceof Error\<close> is false.\<close>

datatype thrown = Error string | NonError

fun truthy :: "json \<Rightarrow> bool" where
  "truthy JNull = False"
| "truthy (JBool b) = b"
| "truthy (JNum n) = (n \<noteq> Zero)"
| "truthy (JStr s) = (s \<noteq> [])"
| "truthy (JArr xs) = True"
| "truthy (JObj kvs) = True"

fun truthy_val :: "jsval \<Rightarrow> bool" where
  "truthy_val None = False"
| "truthy_val (Some v) = truthy v"

fun nullish :: "jsval \<Rightarrow> bool" where
  "nullish None = True"
| "nullish (Some JNull) = True"
| "nullish (Some v) = False"

text \<open>\<open>typeof v === "string"\<close> and \<open>Array.isArray(v)\<close>, with what they find.\<close>

fun as_string :: "jsval \<Rightarrow> string option" where
  "as_string (Some (JStr s)) = Some s"
| "as_string v = None"

fun as_array :: "jsval \<Rightarrow> json list option" where
  "as_array (Some (JArr xs)) = Some xs"
| "as_array v = None"

subsection \<open>Numbers and strings\<close>

text \<open>The decimal text of a natural number: a status, an index, a count, a reading of the
  clock in milliseconds. All of these stay below \<open>10^21\<close>, from where on \<open>String\<close> would
  print an exponent.\<close>

definition digit :: "nat \<Rightarrow> char" where
  "digit d = ''0123456789'' ! d"

fun show_nat :: "nat \<Rightarrow> string" where
  "show_nat n =
     (if n < 10 then [digit n] else show_nat (n div 10) @ [digit (n mod 10)])"

declare show_nat.simps [simp del]

fun show_number :: "number \<Rightarrow> string" where
  "show_number Zero = ''0''"
| "show_number (Nonzero printed) = printed"

fun join_comma :: "string list \<Rightarrow> string" where
  "join_comma [] = []"
| "join_comma [s] = s"
| "join_comma (s # t # ss) = s @ '','' @ join_comma (t # ss)"

text \<open>\<open>String(v)\<close>, which a template literal and \<open>+\<close> on a string apply. An array
  joins its elements with commas, a \<open>null\<close> element printing as nothing.\<close>

fun toString :: "json \<Rightarrow> string" where
  "toString JNull = ''null''"
| "toString (JBool b) = (if b then ''true'' else ''false'')"
| "toString (JNum n) = show_number n"
| "toString (JStr s) = s"
| "toString (JArr xs) = join_comma (map (\<lambda>x. if x = JNull then [] else toString x) xs)"
| "toString (JObj kvs) = ''[object Object]''"

fun toString_val :: "jsval \<Rightarrow> string" where
  "toString_val None = ''undefined''"
| "toString_val (Some v) = toString v"

definition startsWith :: "string \<Rightarrow> string \<Rightarrow> bool" where
  "startsWith s p = (take (length p) s = p)"

text \<open>The white space of \<open>String.prototype.trim\<close> and of \<open>\s\<close> in a regular expression
  (\<open>WhiteSpace\<close> and \<open>LineTerminator\<close> of the language): the code points U+0009 to U+000D,
  U+0020, U+00A0, U+1680, U+2000 to U+200A, U+2028, U+2029, U+202F, U+205F, U+3000 and
  U+FEFF, each by the bytes of its encoding. No encoding is a prefix of another, and in
  well-formed text none begins or ends inside the encoding of another code point.\<close>

definition white_space :: "string list" where
  "white_space =
     [[CHR 0x09], [CHR 0x0A], [CHR 0x0B], [CHR 0x0C], [CHR 0x0D], [CHR 0x20],
      [CHR 0xC2, CHR 0xA0], [CHR 0xE1, CHR 0x9A, CHR 0x80]]
     @ map (\<lambda>c. [CHR 0xE2, CHR 0x80, c])
         [CHR 0x80, CHR 0x81, CHR 0x82, CHR 0x83, CHR 0x84, CHR 0x85, CHR 0x86, CHR 0x87,
          CHR 0x88, CHR 0x89, CHR 0x8A, CHR 0xA8, CHR 0xA9, CHR 0xAF]
     @ [[CHR 0xE2, CHR 0x81, CHR 0x9F], [CHR 0xE3, CHR 0x80, CHR 0x80],
        [CHR 0xEF, CHR 0xBB, CHR 0xBF]]"

text \<open>The text after every leading occurrence of one of the given sequences.\<close>

function strip :: "string list \<Rightarrow> string \<Rightarrow> string" where
  "strip ws s =
     (case find (\<lambda>w. w \<noteq> [] \<and> startsWith s w) ws of
        None \<Rightarrow> s
      | Some w \<Rightarrow> strip ws (drop (length w) s))"
  by pat_completeness auto
termination
proof (relation "measure (\<lambda>(ws, s). length s)")
  show "wf (measure (\<lambda>(ws, s). length s))"
    by simp
next
  fix ws :: "string list" and s w :: string
  assume "find (\<lambda>w. w \<noteq> [] \<and> startsWith s w) ws = Some w"
  then have "w \<noteq> []" and "take (length w) s = w"
    by (auto simp: find_Some_iff startsWith_def)
  then have "0 < length w" and "s \<noteq> []"
    by auto
  then show "((ws, drop (length w) s), (ws, s)) \<in> measure (\<lambda>(ws, s). length s)"
    by simp
qed

declare strip.simps [simp del]

definition trim :: "string \<Rightarrow> string" where
  "trim s = rev (strip (map rev white_space) (rev (strip white_space s)))"

text \<open>\<open>s.replace(/\s+/g, "-")\<close>: every maximal run of white space becomes one dash.\<close>

function replace_spaces :: "string \<Rightarrow> string" where
  "replace_spaces [] = []"
| "replace_spaces (c # cs) =
     (if strip white_space (c # cs) = c # cs then c # replace_spaces cs
      else CHR ''-'' # replace_spaces (strip white_space (c # cs)))"
  by pat_completeness auto
termination
proof -
  have drops: "\<exists>n. strip ws s = drop n s" for ws s
  proof (induction ws s rule: strip.induct)
    case (1 ws s)
    show ?case
    proof (cases "find (\<lambda>w. w \<noteq> [] \<and> startsWith s w) ws")
      case None
      then have "strip ws s = drop 0 s"
        by (simp add: strip.simps [of ws s])
      then show ?thesis
        by blast
    next
      case (Some w)
      from 1 [OF Some] obtain n where "strip ws (drop (length w) s) = drop n (drop (length w) s)"
        by blast
      with Some have "strip ws s = drop (n + length w) s"
        by (simp add: strip.simps [of ws s])
      then show ?thesis
        by blast
    qed
  qed
  have shorter: "length (strip ws s) < length s" if changed: "strip ws s \<noteq> s" for ws s
  proof -
    obtain n where n: "strip ws s = drop n s"
      using drops by blast
    with changed have "0 < n" and "s \<noteq> []"
      by (auto intro: gr0I)
    with n show ?thesis
      by simp
  qed
  show ?thesis
    by (relation "measure length") (auto dest: shorter)
qed

text \<open>\<open>toLowerCase\<close>. On text of ASCII characters it lowers the letters A to Z and
  changes nothing else. On text with a character beyond ASCII it follows the case mapping
  of the Unicode tables of the runtime, which are no part of this program: there the
  model takes the result from its first argument, which the environment provides
  (\<open>lowercase\<close> below).\<close>

definition lower :: "char \<Rightarrow> char" where
  "lower c =
     (case map_of (zip ''ABCDEFGHIJKLMNOPQRSTUVWXYZ'' ''abcdefghijklmnopqrstuvwxyz'') c of
        Some l \<Rightarrow> l
      | None \<Rightarrow> c)"

definition ascii_lowercase :: "string \<Rightarrow> string" where
  "ascii_lowercase s = map lower s"

definition ascii :: "string \<Rightarrow> bool" where
  "ascii s = list_all (\<lambda>c. (of_char c :: nat) < 128) s"

definition toLowerCase :: "(string \<Rightarrow> string) \<Rightarrow> string \<Rightarrow> string" where
  "toLowerCase table s = (if ascii s then ascii_lowercase s else table s)"

subsection \<open>Property access\<close>

text \<open>The own enumerable properties of a value, as \<open>Object.entries\<close> lists them: an array
  and a string have their indices. Inherited and non-enumerable properties are not
  modelled; the program reads none of them as data. The indexed properties of a string
  are its 16-bit code units in the runtime and its bytes here: the program meets them
  only where a response holds a string in the place of an object or of a list, and what
  it does there is the same for either, since no single unit is a locator, is \<open>null\<close> or
  has a property of its own.\<close>

fun entries :: "json \<Rightarrow> (string \<times> json) list" where
  "entries (JObj kvs) = kvs"
| "entries (JArr xs) = zip (map show_nat [0..<length xs]) xs"
| "entries (JStr s) = zip (map show_nat [0..<length s]) (map (\<lambda>c. JStr [c]) s)"
| "entries v = []"

definition keys :: "json \<Rightarrow> string list" where
  "keys v = map fst (entries v)"

text \<open>\<open>v[k]\<close> on a value that is neither \<open>null\<close> nor \<open>undefined\<close>.\<close>

definition get :: "json \<Rightarrow> string \<Rightarrow> jsval" where
  "get v k = map_of (entries v) k"

text \<open>\<open>v.k\<close>: reading a property of \<open>null\<close> or \<open>undefined\<close> throws a \<open>TypeError\<close>
  (the message is V8's).\<close>

definition cannot_read :: "jsval \<Rightarrow> string \<Rightarrow> thrown" where
  "cannot_read v k =
     Error (''Cannot read properties of '' @ toString_val v @ '' (reading '' @ [CHR 0x27]
       @ k @ [CHR 0x27] @ '')'')"

definition member :: "jsval \<Rightarrow> string \<Rightarrow> thrown + jsval" where
  "member v k = (if nullish v then Inl (cannot_read v k) else Inr (get (the v) k))"

text \<open>\<open>v?.k\<close>: \<open>undefined\<close> when \<open>v\<close> is \<open>null\<close> or \<open>undefined\<close>.\<close>

definition opt_member :: "jsval \<Rightarrow> string \<Rightarrow> jsval" where
  "opt_member v k = (if nullish v then None else get (the v) k)"

section \<open>The service: enhancePrompt\<close>

text \<open>The credential \<open>import.meta.env.VITE_OPENAI_API_KEY\<close> is a string or \<open>undefined\<close>;
  \<open>!apiKey\<close> holds of \<open>undefined\<close> and of the empty string.\<close>

definition key_present :: "string option \<Rightarrow> bool" where
  "key_present apiKey = (apiKey \<noteq> None \<and> apiKey \<noteq> Some [])"

text \<open>What the chat-completion call does: it rejects (no network, a refusal of the API,
  a response the client cannot read), or it resolves to the parsed response.\<close>

datatype chat_outcome = ChatRejects | ChatResponds json

text \<open>\<open>response.choices[0]?.message?.content?.trim()\<close>: \<open>undefined\<close> or a string, or a
  \<open>TypeError\<close> when \<open>choices\<close> is missing or the content is not a string.\<close>

definition completion_content :: "json \<Rightarrow> thrown + string option" where
  "completion_content response =
     (case member (Some response) ''choices'' of
        Inl e \<Rightarrow> Inl e
      | Inr choices \<Rightarrow>
          (case member choices ''0'' of
             Inl e \<Rightarrow> Inl e
           | Inr first \<Rightarrow>
               (let content = opt_member (opt_member first ''message'') ''content'' in
                if nullish content then Inr None
                else (case as_string content of
                        Some s \<Rightarrow> Inr (Some (trim s))
                      | None \<Rightarrow> Inl (Error
                          ''response.choices[0]?.message?.content?.trim is not a function'')))))"

text \<open>The credential check stands before the \<open>try\<close>, so its error leaves the function;
  everything after it is inside the \<open>try\<close>, whose handler returns the user's prompt.\<close>

definition enhancePrompt :: "string option \<Rightarrow> chat_outcome \<Rightarrow> string \<Rightarrow> thrown + string" where
  "enhancePrompt apiKey chat userPrompt =
     (if \<not> key_present apiKey then Inl (Error ''OpenAI API key is not configured'')
      else (case chat of
              ChatRejects \<Rightarrow> Inr userPrompt
            | ChatResponds response \<Rightarrow>
                (case completion_content response of
                   Inl e \<Rightarrow> Inr userPrompt
                 | Inr None \<Rightarrow> Inr userPrompt
                 | Inr (Some enhancedPrompt) \<Rightarrow>
                     Inr (if enhancedPrompt = [] then userPrompt else enhancedPrompt))))"

section \<open>The service: generateImages\<close>

text \<open>What one pass of the request loop can meet: the conversion of the source image
  to a blob rejects, the POST rejects, or the endpoint answers with a status and a body,
  which parses as JSON (\<open>Some\<close>) or does not (\<open>None\<close>).\<close>

datatype request_outcome = BlobRejects | PostRejects | Responds nat "json option"

text \<open>What the function does that a caller can observe from outside: the fetches it
  issues and the pauses it takes, in order.\<close>

datatype event = FetchBlob string | Post string string | Delay nat

text \<open>What the body of the loop throws. The error for a non-OK response is
  \<open>new Error(JSON.stringify({message, status, details}))\<close>, and the handler of the outer
  \<open>try\<close> reads it back with \<open>JSON.parse\<close>; the model carries the three fields
  themselves. Every other message is plain text that \<open>JSON.parse\<close> rejects.\<close>

datatype raised = Structured json nat json | Plain thrown

definition response_ok :: "nat \<Rightarrow> bool" where
  "response_ok status = (200 \<le> status \<and> status \<le> 299)"

definition failed_to_fetch :: thrown where
  "failed_to_fetch = Error ''Failed to fetch''"

text \<open>\<open>response.text()\<close> on a body that \<open>response.json()\<close> has consumed.\<close>

definition body_already_read :: thrown where
  "body_already_read = Error (''Failed to execute '' @ [CHR 0x27] @ ''text'' @ [CHR 0x27]
     @ '' on '' @ [CHR 0x27] @ ''Response'' @ [CHR 0x27] @ '': body stream already read'')"

text \<open>Lines 198 to 223, the non-OK response. When \<open>response.json()\<close> throws, or reading
  \<open>errorData.error\<close> does, the handler calls \<open>response.text()\<close> on the consumed body,
  and that \<open>TypeError\<close> is what leaves the block.\<close>

definition api_error :: "nat \<Rightarrow> json option \<Rightarrow> raised" where
  "api_error status body =
     (case body of
        None \<Rightarrow> Plain body_already_read
      | Some errorData \<Rightarrow>
          (case member (Some errorData) ''error'' of
             Inl e \<Rightarrow> Plain body_already_read
           | Inr err \<Rightarrow>
               (let message = opt_member err ''message'' in
                Structured
                  (if truthy_val message then the message
                   else JStr (''API request failed with status '' @ show_nat status))
                  status errorData)))"

definition is_locator :: "jsval \<Rightarrow> bool" where
  "is_locator value =
     (case as_string value of
        Some s \<Rightarrow> startsWith s ''http'' \<or> startsWith s ''data:''
      | None \<Rightarrow> False)"

text \<open>Lines 307 to 325: the recursive scan, over the properties in order.\<close>

fun findUrls :: "json \<Rightarrow> string list" where
  "findUrls (JObj kvs) =
     concat (map (\<lambda>(key, value).
        case value of
          JStr s \<Rightarrow> (if startsWith s ''http'' \<or> startsWith s ''data:'' then [s] else [])
        | JObj _ \<Rightarrow> findUrls value
        | JArr _ \<Rightarrow> findUrls value
        | _ \<Rightarrow> [])
      kvs)"
| "findUrls (JArr xs) =
     concat (map (\<lambda>value.
        case value of
          JStr s \<Rightarrow> (if startsWith s ''http'' \<or> startsWith s ''data:'' then [s] else [])
        | JObj _ \<Rightarrow> findUrls value
        | JArr _ \<Rightarrow> findUrls value
        | _ \<Rightarrow> [])
      xs)"
| "findUrls v = []"

text \<open>Lines 258 to 295: the first entry of the \<open>data\<close> array.\<close>

definition first_item :: "jsval \<Rightarrow> raised + json" where
  "first_item firstItem =
     (if truthy_val firstItem then
        (let item = the firstItem in
         if truthy_val (get item ''url'') then Inr (the (get item ''url''))
         else if truthy_val (get item ''b64_json'')
           then Inr (JStr (''data:image/png;base64,'' @ toString_val (get item ''b64_json'')))
         else (case filter (\<lambda>key. is_locator (get item key)) (keys item) of
                 [] \<Rightarrow> Inl (Plain (Error
                   ''API response missing image data - no URL or base64 found''))
               | key # _ \<Rightarrow> Inr (the (get item key))))
      else Inl (Plain (Error ''API response contains empty data array'')))"

text \<open>Lines 244 to 340: the image locator of a parsed response.\<close>

definition extract_image :: "json \<Rightarrow> raised + json" where
  "extract_image data =
     (case member (Some data) ''data'' of
        Inl e \<Rightarrow> Inl (Plain e)
      | Inr d \<Rightarrow>
          (case as_array d of
             Some items \<Rightarrow> first_item (get (JArr items) ''0'')
           | None \<Rightarrow>
               (case findUrls data of
                  [] \<Rightarrow> Inl (Plain (Error
                    ''API response missing image data - no URLs found in response''))
                | url # _ \<Rightarrow> Inr (JStr url))))"

text \<open>A value that sits somewhere inside an object or an array: a property value or an
  element, at any depth.\<close>

inductive value_in :: "json \<Rightarrow> json \<Rightarrow> bool" where
  property: "(key, value) \<in> set kvs \<Longrightarrow> value_in value (JObj kvs)"
| element: "value \<in> set xs \<Longrightarrow> value_in value (JArr xs)"
| under_property: "(key, inner) \<in> set kvs \<Longrightarrow> value_in value inner \<Longrightarrow> value_in value (JObj kvs)"
| under_element: "inner \<in> set xs \<Longrightarrow> value_in value inner \<Longrightarrow> value_in value (JArr xs)"

code_pred value_in .

text \<open>The parser as the specification words it, to be compared with \<open>extract_image\<close>:
  the primary path is a \<open>data\<close> list whose first entry has a \<open>url\<close> or a base64
  payload; when that is absent, the recursive scan of the whole response, whose first
  match is used; when nothing is found, a "missing image data" error.\<close>

definition primary_locator :: "json \<Rightarrow> json option" where
  "primary_locator data =
     (case as_array (get data ''data'') of
        Some (item # rest) \<Rightarrow>
          if truthy_val (get item ''url'') then get item ''url''
          else if truthy_val (get item ''b64_json'')
            then Some (JStr (''data:image/png;base64,'' @ toString_val (get item ''b64_json'')))
          else None
      | _ \<Rightarrow> None)"

definition extract_image_as_specified :: "json \<Rightarrow> raised + json" where
  "extract_image_as_specified data =
     (case primary_locator data of
        Some locator \<Rightarrow> Inr locator
      | None \<Rightarrow>
          (case findUrls data of
             url # others \<Rightarrow> Inr (JStr url)
           | [] \<Rightarrow> Inl (Plain (Error ''missing image data''))))"


definition blob_url :: "string \<Rightarrow> string" where
  "blob_url dataUrl =
     (if startsWith dataUrl ''data:'' then dataUrl
      else if startsWith dataUrl ''http'' then dataUrl
      else ''data:image/png;base64,'' @ dataUrl)"

definition variedPrompt :: "string \<Rightarrow> nat \<Rightarrow> nat \<Rightarrow> string" where
  "variedPrompt prompt i n =
     prompt @ '' (Variation '' @ show_nat (i + 1) @ '' of '' @ show_nat n @ '')''"

text \<open>Lines 153 to 345: one pass of the loop, with the fetches it issued.\<close>

definition request ::
  "request_outcome \<Rightarrow> string \<Rightarrow> string \<Rightarrow> string \<Rightarrow> event list \<times> (raised + json)" where
  "request outcome prompt originalImageUrl sz =
     (case outcome of
        BlobRejects \<Rightarrow> ([FetchBlob (blob_url originalImageUrl)], Inl (Plain failed_to_fetch))
      | PostRejects \<Rightarrow>
          ([FetchBlob (blob_url originalImageUrl), Post prompt sz], Inl (Plain failed_to_fetch))
      | Responds status body \<Rightarrow>
          ([FetchBlob (blob_url originalImageUrl), Post prompt sz],
           if \<not> response_ok status then Inl (api_error status body)
           else (case body of
                   None \<Rightarrow> Inl (Plain (Error ''Failed to parse API response''))
                 | Some data \<Rightarrow> extract_image data)))"

text \<open>Lines 140 to 352: \<open>for (let i = 0; i < n; i++)\<close>, with the images and the events
  so far.\<close>

function images_loop ::
  "(nat \<Rightarrow> request_outcome) \<Rightarrow> string \<Rightarrow> string \<Rightarrow> string \<Rightarrow> nat \<Rightarrow> nat \<Rightarrow> json list \<Rightarrow>
   event list \<Rightarrow> event list \<times> (raised + json list)" where
  "images_loop reqs prompt originalImageUrl sz n i imageUrls trace =
     (if i < n then
        (case request (reqs i) (variedPrompt prompt i n) originalImageUrl sz of
           (evs, Inl e) \<Rightarrow> (trace @ evs, Inl e)
         | (evs, Inr url) \<Rightarrow>
             images_loop reqs prompt originalImageUrl sz n (Suc i) (imageUrls @ [url])
               (trace @ evs @ (if i < n - 1 then [Delay 1000] else [])))
      else (trace, Inr imageUrls))"
  by pat_completeness auto
termination
  by (relation "measure (\<lambda>(reqs, prompt, originalImageUrl, sz, n, i, imageUrls, trace). n - i)")
    auto

declare images_loop.simps [simp del]

text \<open>Lines 363 to 381: the message of the error the function throws.\<close>

fun image_error :: "raised \<Rightarrow> string" where
  "image_error (Structured message status details) =
     toString message @ '' (Status: '' @ show_nat status @ '')''"
| "image_error (Plain (Error message)) = message"
| "image_error (Plain NonError) = ''Failed to generate images''"

text \<open>\<open>generateImages({prompt, originalImageUrl, n, size, quality})\<close>. The quality is
  received and never sent, so it is no argument here.\<close>

definition generateImages ::
  "string option \<Rightarrow> (nat \<Rightarrow> request_outcome) \<Rightarrow> string \<Rightarrow> string \<Rightarrow> nat \<Rightarrow> string \<Rightarrow>
   event list \<times> (thrown + json list)" where
  "generateImages apiKey reqs prompt originalImageUrl n sz =
     (if \<not> key_present apiKey then ([], Inl (Error ''OpenAI API key is not configured''))
      else (case images_loop reqs prompt originalImageUrl sz n 0 [] [] of
              (trace, Inl e) \<Rightarrow> (trace, Inl (Error (image_error e)))
            | (trace, Inr imageUrls) \<Rightarrow>
                if imageUrls = []
                then (trace, Inl (Error (image_error (Plain (Error
                       ''Failed to generate any images'')))))
                else (trace, Inr imageUrls)))"

subsection \<open>Reading a trace\<close>

fun is_delay :: "event \<Rightarrow> bool" where
  "is_delay (Delay ms) = True"
| "is_delay e = False"

fun is_post :: "event \<Rightarrow> bool" where
  "is_post (Post prompt sz) = True"
| "is_post e = False"

definition delays :: "event list \<Rightarrow> nat" where
  "delays trace = length (filter is_delay trace)"

definition posts :: "event list \<Rightarrow> nat" where
  "posts trace = length (filter is_post trace)"

text \<open>The fetches of a pass of the loop that got an answer: the blob, then the POST with
  the prompt of that pass.\<close>

definition pass :: "string \<Rightarrow> string \<Rightarrow> string \<Rightarrow> nat \<Rightarrow> nat \<Rightarrow> event list" where
  "pass prompt originalImageUrl sz n j =
     [FetchBlob (blob_url originalImageUrl), Post (variedPrompt prompt j n) sz]"


section \<open>The batch of generated ads\<close>

text \<open>\<open>type GeneratedAd = { id; imageUrl; rating?; adType?; isRegenerating? }\<close>. The field
  \<open>id\<close> is \<open>ad_id\<close> here. \<open>imageUrl\<close> holds whatever the response parser pushed, which
  nothing forces to be a string.\<close>

record GeneratedAd =
  ad_id :: string
  imageUrl :: json
  rating :: "int option"
  adType :: "string option"
  isRegenerating :: "bool option"

datatype Step = INPUT | GENERATION

text \<open>An uploaded file, by what \<open>fileToDataUrl\<close> makes of it: its data URL, or the
  reader's error event.\<close>

datatype File = Readable string | Unreadable

datatype timer_action = ClearGenerating

text \<open>The state of the \<open>Home\<close> component. \<open>timeouts\<close> are the pending \<open>setTimeout\<close>
  callbacks with their delays in milliseconds. \<open>intervals\<close> are the timers that
  \<open>startProgressAnimation\<close> has started, each by the \<open>currentProgress\<close> of its closure.\<close>

record session =
  currentStep :: Step
  productDescription :: string
  productImage :: "File option"
  generatedAds :: "GeneratedAd list"
  generationError :: "string option"
  isGenerating :: bool
  progressValue :: rat
  progressMessage :: string
  timeouts :: "(nat \<times> timer_action) list"
  intervals :: "rat list"

subsection \<open>The prompt configuration\<close>

text \<open>The two locals \<open>basePrompt\<close> and \<open>adTypes\<close> of the orchestrator. The ad types
  are kept as the JSON they may have come from.\<close>

record PromptConfig =
  basePrompt :: string
  adTypes :: "json list"

definition default_basePrompt :: "string \<Rightarrow> string" where
  \<open>default_basePrompt enhancedDescription =
     ''Create a professional ecommerce ad for this product. The product description '' @
     ''is: "'' @
     enhancedDescription @
     ''". CRITICAL INSTRUCTION: The product must be the central focus of the ad '' @
     ''and must maintain its exact appearance, colors, and design. Do not change '' @
     ''any text on the product image uploaded.''\<close>

text \<open>The three built-in prompts end with the same rules, written once here. The en dash
  of the second prompt is its three UTF-8 bytes.\<close>

definition general_rules :: string where
  \<open>general_rules =
     ''\<newline>'' @
     ''\<newline>'' @
     ''General Rules:\<newline>'' @
     ''\<newline>'' @
     ''- Ensure the product is centered or attractively placed in the visual.\<newline>'' @
     ''- The image should be 1080x1080px.\<newline>'' @
     ''- Keep text concise and legible.\<newline>'' @
     ''- Use a font style that is unique to this ad.''\<close>

definition creative_prompt :: string where
  \<open>creative_prompt =
     ''\<newline>'' @
     ''\<newline>'' @
     ''1. Creative Concept Ad:\<newline>'' @
     ''- Generate a bold, imaginative visual concept using the product image.\<newline>'' @
     ''- The background and design should align with the product's theme and aesthetic.\<newline>'' @
     ''- Add a short, catchy headline or tagline that evokes curiosity or emotion.\<newline>'' @
     ''- Use a unique font style that fits the vibe of the concept.'' @
     general_rules\<close>

definition benefit_prompt :: string where
  \<open>benefit_prompt =
     ''\<newline>'' @
     ''\<newline>'' @
     ''1. Benefit Highlight Ad:\<newline>'' @
     ''- Focus on showcasing 2'' @
     [CHR 0xE2, CHR 0x80, CHR 0x93] @
     ''3 key benefits or features of the product.\<newline>'' @
     ''- Integrate supporting graphics or icons (if relevant) in the design.\<newline>'' @
     ''- Make the product the visual hero.\<newline>'' @
     ''- Use a clean and legible font style different from other ads.'' @
     general_rules\<close>

definition ecommerce_prompt :: string where
  \<open>ecommerce_prompt =
     ''\<newline>'' @
     ''\<newline>'' @
     ''1. Ecommerce-Style Ad:\<newline>'' @
     ''- Make it suitable for a Shopify or Amazon-style ecommerce setting.\<newline>'' @
     ''- Use color palettes that complement the product (auto-match to image).\<newline>'' @
     ''- Add CTA like "Buy Now" or "Limited Offer".\<newline>'' @
     ''- Do not add pricing, unless explicitly mentioned in the USER_DESCRIPTION.\<newline>'' @
     ''- Use a modern, commerce-friendly font style.'' @
     general_rules\<close>

definition adTypeSpec :: "string \<Rightarrow> string \<Rightarrow> json" where
  "adTypeSpec label instructions = JObj [(''type'', JStr label), (''prompt'', JStr instructions)]"

definition default_adTypes :: "json list" where
  "default_adTypes =
     [adTypeSpec ''Creative Concept Ad'' creative_prompt,
      adTypeSpec ''Benefit Highlight Ad'' benefit_prompt,
      adTypeSpec ''Ecommerce-Style Ad'' ecommerce_prompt]"

text \<open>\<open>s.replace(pattern, replacement)\<close> with a string pattern: the first occurrence
  only, and in the replacement \<open>$$\<close>, \<open>$&\<close>, \<open>$`\<close> and \<open>$'\<close> stand for a dollar, the
  match, the text before it and the text after it.\<close>

fun split_first :: "string \<Rightarrow> string \<Rightarrow> (string \<times> string) option" where
  "split_first pattern [] = (if pattern = [] then Some ([], []) else None)"
| "split_first pattern (c # cs) =
     (if startsWith (c # cs) pattern then Some ([], drop (length pattern) (c # cs))
      else map_option (\<lambda>(before, after). (c # before, after)) (split_first pattern cs))"

fun substitution :: "string \<Rightarrow> string \<Rightarrow> string \<Rightarrow> string \<Rightarrow> string" where
  "substitution matched before after (c # d # rest) =
     (if c = CHR ''$'' \<and> d = CHR ''$'' then CHR ''$'' # substitution matched before after rest
      else if c = CHR ''$'' \<and> d = CHR ''&'' then matched @ substitution matched before after rest
      else if c = CHR ''$'' \<and> d = CHR 0x60 then before @ substitution matched before after rest
      else if c = CHR ''$'' \<and> d = CHR 0x27 then after @ substitution matched before after rest
      else c # substitution matched before after (d # rest))"
| "substitution matched before after rest = rest"

definition str_replace :: "string \<Rightarrow> string \<Rightarrow> string \<Rightarrow> string" where
  "str_replace s pattern replacement =
     (case split_first pattern s of
        None \<Rightarrow> s
      | Some (before, after) \<Rightarrow> before @ substitution pattern before after replacement @ after)"

text \<open>What \<open>fetch(promptUrl)\<close> does: it rejects, or it answers with a status and a
  body that parses as JSON or does not.\<close>

datatype fetch_outcome = FetchRejects | FetchResponds nat "json option"

definition apply_adTypes :: "json \<Rightarrow> PromptConfig \<Rightarrow> PromptConfig" where
  "apply_adTypes externalConfig cfg =
     (case as_array (get externalConfig ''adTypes'') of
        Some types \<Rightarrow> cfg\<lparr>adTypes := types\<rparr>
      | None \<Rightarrow> cfg)"

text \<open>Lines 181 to 231 of the orchestrator. Everything that throws inside the \<open>try\<close>
  (the fetch, \<open>response.json()\<close>, reading a property of \<open>null\<close>, calling \<open>replace\<close> on
  what is no string) throws before either local is assigned, and the handler only warns.\<close>

definition resolve_config :: "fetch_outcome \<Rightarrow> string \<Rightarrow> PromptConfig" where
  "resolve_config reply enhancedDescription =
     (let defaults = \<lparr>basePrompt = default_basePrompt enhancedDescription,
                       adTypes = default_adTypes\<rparr> in
      case reply of
        FetchRejects \<Rightarrow> defaults
      | FetchResponds status body \<Rightarrow>
          if response_ok status then
            (case body of
               None \<Rightarrow> defaults
             | Some externalConfig \<Rightarrow>
                 (case member (Some externalConfig) ''basePrompt'' of
                    Inl e \<Rightarrow> defaults
                  | Inr template \<Rightarrow>
                      if truthy_val template then
                        (case as_string template of
                           Some t \<Rightarrow>
                             apply_adTypes externalConfig
                               (defaults\<lparr>basePrompt :=
                                  str_replace t ''{DESCRIPTION}'' enhancedDescription\<rparr>)
                         | None \<Rightarrow> defaults)
                      else apply_adTypes externalConfig defaults))
          else defaults)"

subsection \<open>generateAdVariations\<close>

text \<open>What the orchestrator meets outside itself during one call: what the dynamic import
  of the service module rejects with, if it does; the credential; the answer of the chat
  completion; the answers of the configuration fetches (numbered in the order the call
  issues them); the answers to the requests of each call of \<open>generateImages\<close> (numbered
  likewise); what \<open>Date.now()\<close> reads when the k-th ad is built; the text of
  \<open>Math.random()\<close>; what \<open>toLowerCase\<close> makes of text with a character beyond ASCII; and
  the interval callbacks that run while the call waits, for each of its waits the
  intervals in the order they tick.\<close>

record environment =
  import_reply :: "thrown option"
  credential :: "string option"
  chat_reply :: chat_outcome
  config_reply :: "nat \<Rightarrow> fetch_outcome"
  edit_reply :: "nat \<Rightarrow> nat \<Rightarrow> request_outcome"
  clock :: "nat \<Rightarrow> nat"
  random_text :: string
  lowercase :: "string \<Rightarrow> string"
  elapsed :: "nat \<Rightarrow> nat list"

fun fileToDataUrl :: "File \<Rightarrow> thrown + string" where
  "fileToDataUrl (Readable dataUrl) = Inr dataUrl"
| "fileToDataUrl Unreadable = Inl NonError"

definition fallbackAds :: "GeneratedAd list" where
  "fallbackAds =
     [\<lparr>ad_id = ''1'',
       imageUrl = JStr ''https://images.unsplash.com/photo-1542744173-8e7e53415bb0?w=800&q=80'',
       rating = None, adType = Some ''Creative Concept Ad'', isRegenerating = None\<rparr>,
      \<lparr>ad_id = ''2'',
       imageUrl = JStr ''https://images.unsplash.com/photo-1557804506-669a67965ba0?w=800&q=80'',
       rating = None, adType = Some ''Benefit Highlight Ad'', isRegenerating = None\<rparr>,
      \<lparr>ad_id = ''3'',
       imageUrl = JStr ''https://images.unsplash.com/photo-1661956602926-db6b25f75947?w=800&q=80'',
       rating = None, adType = Some ''Ecommerce-Style Ad'', isRegenerating = None\<rparr>]"

text \<open>\<open>adType.type.toLowerCase()\<close> needs a string.\<close>

definition ad_label :: "json \<Rightarrow> thrown + string" where
  "ad_label adTypeEntry =
     (case as_string (get adTypeEntry ''type'') of
        Some label \<Rightarrow> Inr label
      | None \<Rightarrow>
          if nullish (get adTypeEntry ''type'')
          then Inl (cannot_read (get adTypeEntry ''type'') ''toLowerCase'')
          else Inl (Error ''adType.type.toLowerCase is not a function''))"

text \<open>Line 256: \<open>`gen-${Date.now()}-${adType.type.toLowerCase().replace(/\s+/g, "-")}`\<close>.\<close>

definition new_id :: "(string \<Rightarrow> string) \<Rightarrow> nat \<Rightarrow> string \<Rightarrow> string" where
  "new_id table time label =
     ''gen-'' @ show_nat time @ ''-'' @ replace_spaces (toLowerCase table label)"

text \<open>The part of the id that comes from an entry of the ad types: the slug of its label.\<close>

definition slug_of :: "(string \<Rightarrow> string) \<Rightarrow> json \<Rightarrow> string" where
  "slug_of table adTypeEntry =
     (case ad_label adTypeEntry of
        Inr label \<Rightarrow> replace_spaces (toLowerCase table label)
      | Inl e \<Rightarrow> [])"

text \<open>Lines 239 to 261: \<open>for (const adType of adTypes)\<close>, with the number of the
  iteration and the ads so far. The log of line 240 reads \<open>adType.type\<close> before line 243
  reads \<open>adType.prompt\<close>, so an entry that is \<open>null\<close> fails on \<open>type\<close>.\<close>

fun batch ::
  "environment \<Rightarrow> string \<Rightarrow> string \<Rightarrow> nat \<Rightarrow> json list \<Rightarrow> GeneratedAd list \<Rightarrow>
   thrown + GeneratedAd list" where
  "batch env base imageDataUrl k [] ads = Inr ads"
| "batch env base imageDataUrl k (adTypeEntry # rest) ads =
     (case member (Some adTypeEntry) ''type'' of
        Inl e \<Rightarrow> Inl e
      | Inr logged \<Rightarrow>
          (case member (Some adTypeEntry) ''prompt'' of
             Inl e \<Rightarrow> Inl e
           | Inr instructions \<Rightarrow>
               (case snd (generateImages (credential env) (edit_reply env k)
                            (base @ toString_val instructions) imageDataUrl 1 ''1024x1024'') of
                  Inl e \<Rightarrow> Inl e
                | Inr [] \<Rightarrow> batch env base imageDataUrl (Suc k) rest ads
                | Inr (url # urls) \<Rightarrow>
                    (case ad_label adTypeEntry of
                       Inl e \<Rightarrow> Inl e
                     | Inr label \<Rightarrow>
                         batch env base imageDataUrl (Suc k) rest
                           (ads @ [\<lparr>ad_id = new_id (lowercase env) (clock env k) label,
                                     imageUrl = url, rating = None, adType = Some label,
                                     isRegenerating = None\<rparr>])))))"

text \<open>Lines 308 to 316: the handler of the outer \<open>try\<close>.\<close>

definition run_failed :: "thrown \<Rightarrow> session \<Rightarrow> session" where
  "run_failed e s =
     s\<lparr>generationError :=
          Some (case e of Error message \<Rightarrow> message
                        | NonError \<Rightarrow> ''Failed to generate ad variations''),
       isGenerating := False\<rparr>"

text \<open>Lines 265 to 297: the handler of the inner \<open>try\<close>.\<close>

definition batch_failed :: "thrown \<Rightarrow> session \<Rightarrow> session" where
  "batch_failed apiError s =
     s\<lparr>generationError :=
          Some (case apiError of Error message \<Rightarrow> message
                               | NonError \<Rightarrow> ''Failed to generate images with OpenAI API''),
       generatedAds := fallbackAds\<rparr>"

text \<open>Lines 105 to 138: \<open>startProgressAnimation\<close> starts an interval of 200 ms whose
  callback is \<open>tick\<close>. The function returns a cleanup that would clear the interval; the
  only call, at line 159, drops it, so an interval ends only by clearing itself, on the
  first tick that finds its progress at 95. An interval that has cleared itself ticks no
  more; a tick of one (or of an interval that was never started) changes nothing here.

  The runtime computes the progress in binary floating point and the model in exact
  arithmetic; the two differ by rounding only. What is proved below of a value that a
  tick writes is only that it is at most 95, which holds of the rounded value as well,
  since \<open>Math.min\<close> returns one of its arguments; and of a message that a tick writes,
  that it is one of the five (in the one example, that it is the first, for the values
  4.75 and 9.2625, which no rounding takes to 20).\<close>

definition messages :: "(rat \<times> string) list" where
  "messages =
     [(0, ''Uploading your image''), (20, ''Doing science''),
      (40, ''Doing quality assessment''), (60, ''Almost done...''), (80, ''Anytime now...'')]"

definition maxProgress :: rat where
  "maxProgress = 95"

definition startProgressAnimation :: "session \<Rightarrow> session" where
  "startProgressAnimation s = s\<lparr>intervals := intervals s @ [0]\<rparr>"

definition tick :: "nat \<Rightarrow> session \<Rightarrow> session" where
  "tick j s =
     (if j < length (intervals s) then
        (let currentProgress = intervals s ! j in
         if currentProgress \<ge> maxProgress then s
         else
           (let increment = max (1 / 2) ((maxProgress - currentProgress) / 20);
                progress = min maxProgress (currentProgress + increment);
                s1 = s\<lparr>intervals := (intervals s)[j := progress], progressValue := progress\<rparr> in
            case find (\<lambda>(threshold, message). progress \<ge> threshold) (rev messages) of
              Some (threshold, message) \<Rightarrow> s1\<lparr>progressMessage := message\<rparr>
            | None \<Rightarrow> s1))
      else s)"

definition ticks :: "nat list \<Rightarrow> session \<Rightarrow> session" where
  "ticks js s = fold tick js s"

text \<open>Lines 150 to 317. The function waits four times: for the dynamic import, for
  \<open>enhancePrompt\<close>, for \<open>fileToDataUrl\<close>, and for the configuration and the batch (whose
  waits are one here, since the function writes nothing that a tick reads or writes
  between them). While it waits, the intervals tick as the environment says. A timeout
  of an earlier run that is still pending does not fire during the run: a run is started
  from the input form only, which is gone once a run has started.\<close>

definition generateAdVariations :: "environment \<Rightarrow> string \<Rightarrow> File \<Rightarrow> session \<Rightarrow> session" where
  "generateAdVariations env description imageFile s =
     (let s1 = startProgressAnimation
                 (s\<lparr>isGenerating := True, generationError := None, currentStep := GENERATION,
                    progressValue := 0, progressMessage := ''Enhancing your prompt''\<rparr>);
          s2 = ticks (elapsed env 0) s1 in
      case import_reply env of
        Some e \<Rightarrow> run_failed e s2
      | None \<Rightarrow>
          (let s3 = ticks (elapsed env 1)
                      (s2\<lparr>progressMessage := ''Enhancing your description with AI''\<rparr>) in
           case enhancePrompt (credential env) (chat_reply env) description of
             Inl e \<Rightarrow> run_failed e s3
           | Inr enhancedDescription \<Rightarrow>
               (let s4 = ticks (elapsed env 2)
                           (s3\<lparr>progressMessage := ''Uploading your image''\<rparr>) in
                case fileToDataUrl imageFile of
                  Inl e \<Rightarrow> run_failed e s4
                | Inr imageDataUrl \<Rightarrow>
                    (let cfg = resolve_config (config_reply env 0) enhancedDescription;
                         s5 = ticks (elapsed env 3) s4;
                         s6 = (case batch env (basePrompt cfg) imageDataUrl 0 (adTypes cfg) []
                               of Inr ads \<Rightarrow> s5\<lparr>generatedAds := ads\<rparr>
                                | Inl apiError \<Rightarrow> batch_failed apiError s5)
                     in s6\<lparr>progressValue := 100, progressMessage := ''Complete!'',
                           timeouts := timeouts s6 @ [(500, ClearGenerating)]\<rparr>))))"

definition handleInputSubmit :: "environment \<Rightarrow> string \<Rightarrow> File \<Rightarrow> session \<Rightarrow> session" where
  "handleInputSubmit env description imageFile s =
     generateAdVariations env description imageFile
       (s\<lparr>productDescription := description, productImage := Some imageFile\<rparr>)"

text \<open>The pending timeouts run once their delays have passed. Until then the intervals
  go on ticking: \<open>run_timeouts (ticks js s)\<close> is the state once the timeouts of \<open>s\<close> have
  run, after the ticks \<open>js\<close>.\<close>

fun fire :: "timer_action \<Rightarrow> session \<Rightarrow> session" where
  "fire ClearGenerating s = s\<lparr>isGenerating := False\<rparr>"

definition run_timeouts :: "session \<Rightarrow> session" where
  "run_timeouts s = fold (\<lambda>(delay, action). fire action) (timeouts s) (s\<lparr>timeouts := []\<rparr>)"

subsection \<open>handleRegenerateAd\<close>

text \<open>The source of this handler holds both sides of an unresolved merge: the
  configuration URL is an environment setting on one side and the literal of
  \<open>generateAdVariations\<close> on the other. With the literal the fetch is always
  attempted; with an unset setting it is skipped, which leaves the defaults as a fetch
  that rejects does. The model follows the literal.\<close>

text \<open>Lines 357 to 400: the ad types of the regeneration, from the first fetch.\<close>

definition current_adTypes :: "fetch_outcome \<Rightarrow> json list" where
  "current_adTypes reply =
     (case reply of
        FetchRejects \<Rightarrow> default_adTypes
      | FetchResponds status body \<Rightarrow>
          if response_ok status then
            (case body of
               None \<Rightarrow> default_adTypes
             | Some externalConfig \<Rightarrow>
                 (case member (Some externalConfig) ''adTypes'' of
                    Inl e \<Rightarrow> default_adTypes
                  | Inr types \<Rightarrow>
                      (case as_array types of
                         Some ts \<Rightarrow> ts
                       | None \<Rightarrow> default_adTypes)))
          else default_adTypes)"

text \<open>Lines 403 to 408: \<open>currentAdTypes.find((at) => at.type === adType) || {type, prompt: ""}\<close>.
  Reading \<open>at.type\<close> of a \<open>null\<close> entry throws.\<close>

fun find_adType :: "json list \<Rightarrow> string \<Rightarrow> thrown + json" where
  "find_adType [] label = Inr (JObj [(''type'', JStr label), (''prompt'', JStr [])])"
| "find_adType (entry # rest) label =
     (case member (Some entry) ''type'' of
        Inl e \<Rightarrow> Inl e
      | Inr t \<Rightarrow> if t = Some (JStr label) then Inr entry else find_adType rest label)"

text \<open>Lines 422 to 452: the base prompt of the regeneration, from the second fetch.\<close>

definition current_basePrompt :: "fetch_outcome \<Rightarrow> string \<Rightarrow> string" where
  "current_basePrompt reply enhancedProductDescription =
     (case reply of
        FetchRejects \<Rightarrow> default_basePrompt enhancedProductDescription
      | FetchResponds status body \<Rightarrow>
          if response_ok status then
            (case body of
               None \<Rightarrow> default_basePrompt enhancedProductDescription
             | Some externalConfig \<Rightarrow>
                 (case member (Some externalConfig) ''basePrompt'' of
                    Inl e \<Rightarrow> default_basePrompt enhancedProductDescription
                  | Inr template \<Rightarrow>
                      if truthy_val template then
                        (case as_string template of
                           Some t \<Rightarrow>
                             str_replace t ''{DESCRIPTION}'' enhancedProductDescription
                         | None \<Rightarrow> default_basePrompt enhancedProductDescription)
                      else default_basePrompt enhancedProductDescription))
          else default_basePrompt enhancedProductDescription)"

text \<open>Lines 345 to 467: the body of the inner \<open>try\<close> up to the call of the generator,
  from the dynamic import of the service module on. \<open>Inl\<close> is whatever it throws, which
  the handler at line 486 swallows.\<close>

definition regenerate_image ::
  "environment \<Rightarrow> GeneratedAd \<Rightarrow> File \<Rightarrow> string \<Rightarrow> thrown + json list" where
  "regenerate_image env adToRegenerate imageFile description =
     (case (case import_reply env of Some e \<Rightarrow> Inl e | None \<Rightarrow> fileToDataUrl imageFile) of
        Inl e \<Rightarrow> Inl e
      | Inr imageDataUrl \<Rightarrow>
          (let label = (case adType adToRegenerate of
                          None \<Rightarrow> ''Creative Concept Ad''
                        | Some t \<Rightarrow> if t = [] then ''Creative Concept Ad'' else t) in
           case find_adType (current_adTypes (config_reply env 0)) label of
             Inl e \<Rightarrow> Inl e
           | Inr adTypeConfig \<Rightarrow>
               (let instructions = toString_val (get adTypeConfig ''prompt'') @
                      ''\<newline>\<newline>- Make it slightly more creative.'' in
                case enhancePrompt (credential env) (chat_reply env) description of
                  Inl e \<Rightarrow> Inl e
                | Inr enhancedProductDescription \<Rightarrow>
                    snd (generateImages (credential env) (edit_reply env 0)
                           (current_basePrompt (config_reply env 1) enhancedProductDescription
                              @ instructions)
                           imageDataUrl 1 ''1024x1024''))))"

definition mark_regenerating :: "string \<Rightarrow> GeneratedAd list \<Rightarrow> GeneratedAd list" where
  "mark_regenerating i prevAds =
     map (\<lambda>ad. if ad_id ad = i then ad\<lparr>isRegenerating := Some True\<rparr> else ad) prevAds"

text \<open>The update of lines 471 to 483 and, with the placeholder, of lines 493 to 505.\<close>

definition replace_image :: "string \<Rightarrow> json \<Rightarrow> GeneratedAd list \<Rightarrow> GeneratedAd list" where
  "replace_image i url prevAds =
     map (\<lambda>ad. if ad_id ad = i
               then ad\<lparr>imageUrl := url, rating := None, isRegenerating := Some False\<rparr>
               else ad) prevAds"

text \<open>The update of lines 510 to 517, in the handler of the outer \<open>try\<close>. Nothing in the
  scope of that \<open>try\<close> and outside the inner one can throw (a search of the batch, three
  state updates, \<open>Math.random\<close>, a log), so the handler never runs.\<close>

definition reset_regenerating :: "string \<Rightarrow> GeneratedAd list \<Rightarrow> GeneratedAd list" where
  "reset_regenerating i prevAds =
     map (\<lambda>ad. if ad_id ad = i then ad\<lparr>isRegenerating := Some False\<rparr> else ad) prevAds"

definition placeholder :: "string \<Rightarrow> json" where
  "placeholder r =
     JStr (''https://images.unsplash.com/photo-1611162617213-7d7a39e9b1d7?w=800&q=80&random=''
           @ r)"

definition handleRegenerateAd :: "environment \<Rightarrow> string \<Rightarrow> session \<Rightarrow> session" where
  "handleRegenerateAd env i s =
     (case find (\<lambda>ad. ad_id ad = i) (generatedAds s) of
        None \<Rightarrow> s
      | Some adToRegenerate \<Rightarrow>
          (let s1 = s\<lparr>generatedAds := mark_regenerating i (generatedAds s)\<rparr>;
               fallback = s1\<lparr>generatedAds :=
                 replace_image i (placeholder (random_text env)) (generatedAds s1)\<rparr> in
           if productImage s \<noteq> None \<and> productDescription s \<noteq> [] then
             (case regenerate_image env adToRegenerate (the (productImage s))
                     (productDescription s) of
                Inl e \<Rightarrow> fallback
              | Inr [] \<Rightarrow> fallback
              | Inr (url # urls) \<Rightarrow>
                  s1\<lparr>generatedAds := replace_image i url (generatedAds s1)\<rparr>)
           else fallback))"

subsection \<open>Sequences of operations on a batch\<close>

datatype operation = Rate string int | Regenerate environment string

subsection \<open>handleRateAd\<close>

definition rate :: "string \<Rightarrow> int \<Rightarrow> GeneratedAd list \<Rightarrow> GeneratedAd list" where
  "rate i r prevAds = map (\<lambda>ad. if ad_id ad = i then ad\<lparr>rating := Some r\<rparr> else ad) prevAds"

definition handleRateAd :: "string \<Rightarrow> int \<Rightarrow> session \<Rightarrow> session" where
  "handleRateAd i r s = s\<lparr>generatedAds := rate i r (generatedAds s)\<rparr>"

fun apply_operation :: "operation \<Rightarrow> session \<Rightarrow> session" where
  "apply_operation (Rate i r) s = handleRateAd i r s"
| "apply_operation (Regenerate env i) s = handleRegenerateAd env i s"

definition apply_operations :: "operation list \<Rightarrow> session \<Rightarrow> session" where
  "apply_operations ops s = fold apply_operation ops s"

section \<open>Example data\<close>

definition ad1 :: GeneratedAd where
  "ad1 = \<lparr>ad_id = ''1'', imageUrl = JStr ''https://a.example/1.png'', rating = Some 4,
          adType = Some ''Creative Concept Ad'', isRegenerating = None\<rparr>"

definition ad2 :: GeneratedAd where
  "ad2 = \<lparr>ad_id = ''2'', imageUrl = JStr ''https://a.example/2.png'', rating = None,
          adType = Some ''Benefit Highlight Ad'', isRegenerating = Some False\<rparr>"

definition session0 :: session where
  "session0 = \<lparr>currentStep = GENERATION, productDescription = ''Blue ceramic mug'',
     productImage = Some (Readable ''data:image/png;base64,AAAA''),
     generatedAds = [ad1, ad2], generationError = None, isGenerating = False,
     progressValue = 100, progressMessage = ''Complete!'', timeouts = [],
     intervals = [95]\<rparr>"

definition chat_ok :: json where
  "chat_ok = JObj [(''choices'', JArr [JObj [(''message'',
     JObj [(''role'', JStr ''assistant''), (''content'', JStr ''  A glossy blue mug. '')])]])]"

text \<open>A completion padded with a no-break space in front and a thin space and a line feed
  behind, and one of white space only.\<close>

definition choice_padded :: json where
  "choice_padded = JObj [(''message'', JObj [(''role'', JStr ''assistant''),
     (''content'',
      JStr ([CHR 0xC2, CHR 0xA0] @ ''A mug'' @ [CHR 0xE2, CHR 0x80, CHR 0x89, CHR 0x0A]))])]"

definition chat_padded :: json where
  "chat_padded = JObj [(''choices'', JArr [choice_padded])]"

definition chat_blank :: json where
  "chat_blank = JObj [(''choices'', JArr [JObj [(''message'',
     JObj [(''content'', JStr [CHR 0x20, CHR 0xE3, CHR 0x80, CHR 0x80, CHR 0x09])])]])]"

definition edit_ok :: json where
  "edit_ok = JObj [(''created'', JNum (Nonzero ''1700000000'')),
                   (''data'', JArr [JObj [(''url'', JStr ''https://cdn.example/new.png'')]])]"

text \<open>What \<open>toLowerCase\<close> does on text of code points up to U+00FF: the letters U+00C0 to
  U+00DE other than the sign U+00D7 move up by 32. The examples have no text beyond.\<close>

fun latin1_lowercase :: "string \<Rightarrow> string" where
  "latin1_lowercase [] = []"
| "latin1_lowercase [c] = [lower c]"
| "latin1_lowercase (c # d # cs) =
     (if c = CHR 0xC3 \<and> (of_char d :: nat) \<in> {0x80..0x9E} - {0x97}
      then c # char_of ((of_char d :: nat) + 0x20) # latin1_lowercase cs
      else lower c # latin1_lowercase (d # cs))"

text \<open>An environment in which everything answers at once.\<close>

definition env_ok :: environment where
  "env_ok = \<lparr>import_reply = None, credential = Some ''sk-test'',
     chat_reply = ChatResponds chat_ok, config_reply = (\<lambda>k. FetchRejects),
     edit_reply = (\<lambda>k i. Responds 200 (Some edit_ok)), clock = (\<lambda>k. 1000 + k),
     random_text = ''0.42'', lowercase = latin1_lowercase, elapsed = (\<lambda>k. [])\<rparr>"

definition env_nokey :: environment where
  "env_nokey = env_ok\<lparr>credential := None\<rparr>"

text \<open>The service module does not load (the message is the browser's).\<close>

definition env_unloaded :: environment where
  "env_unloaded =
     env_ok\<lparr>import_reply := Some (Error ''Failed to fetch dynamically imported module'')\<rparr>"

text \<open>The intervals tick while the run waits: the one that the run starts in the session
  \<open>session_start\<close> is number 0.\<close>

definition env_busy :: environment where
  "env_busy = env_ok\<lparr>elapsed := (\<lambda>k. [0, 0, 0])\<rparr>"

text \<open>The chat completion takes longer than one tick of the interval.\<close>

definition env_slow_chat :: environment where
  "env_slow_chat = env_ok\<lparr>elapsed := (\<lambda>k. if k = 1 then [0] else [])\<rparr>"





definition invalid_image_body :: json where
  "invalid_image_body = JObj [(''error'', JObj [(''message'', JStr ''invalid image'')])]"

definition env_400 :: environment where
  "env_400 = env_ok\<lparr>edit_reply := (\<lambda>k i. Responds 400 (Some invalid_image_body))\<rparr>"

definition session_start :: session where
  "session_start = \<lparr>currentStep = INPUT, productDescription = [], productImage = None,
     generatedAds = [], generationError = None, isGenerating = False,
     progressValue = 0, progressMessage = ''Uploading your image'', timeouts = [],
     intervals = []\<rparr>"

definition config_same_slug :: json where
  "config_same_slug =
     JObj [(''adTypes'', JArr [adTypeSpec ''Summer Sale'' ''a'', adTypeSpec ''summer sale'' ''b''])]"

definition env_same_slug :: environment where
  "env_same_slug = env_ok\<lparr>config_reply := (\<lambda>k. FetchResponds 200 (Some config_same_slug)),
                          clock := (\<lambda>k. 1000)\<rparr>"

text \<open>Two labels beyond ASCII: \<open>CAF\<close> and \<open>caf\<close>, each followed by an E with an acute accent
  (U+00C9 and U+00E9).\<close>

definition config_accent :: json where
  "config_accent =
     JObj [(''adTypes'', JArr [adTypeSpec (''CAF'' @ [CHR 0xC3, CHR 0x89]) ''a'',
                               adTypeSpec (''caf'' @ [CHR 0xC3, CHR 0xA9]) ''b''])]"

definition env_accent :: environment where
  "env_accent = env_ok\<lparr>config_reply := (\<lambda>k. FetchResponds 200 (Some config_accent)),
                       clock := (\<lambda>k. 1000)\<rparr>"

definition response_nested :: json where
  "response_nested =
     JObj [(''data'', JArr [JObj [(''revised_prompt'', JStr ''a mug on a table'')]]),
           (''output'', JObj [(''image'', JStr ''https://cdn.example/a.png'')])]"

definition response_empty_list :: json where
  "response_empty_list =
     JObj [(''data'', JArr []), (''image'', JStr ''https://cdn.example/a.png'')]"

definition response_b64 :: json where
  "response_b64 = JObj [(''data'', JArr [JObj [(''b64_json'', JStr ''iVBORw0KGgo='')]])]"

definition response_other_key :: json where
  "response_other_key =
     JObj [(''data'', JArr [JObj [(''revised_prompt'', JStr ''a mug''),
                                  (''image_url'', JStr ''https://cdn.example/b.png'')]])]"

definition response_no_list :: json where
  "response_no_list =
     JObj [(''created'', JNum (Nonzero ''1700000000'')),
           (''result'', JObj [(''note'', JStr ''done''),
                              (''images'', JArr [JStr ''data:image/png;base64,QUJD'',
                                                 JStr ''https://cdn.example/c.png''])])]"


section \<open>Facts about the JavaScript primitives\<close>

lemma show_nat_digit: "n < 10 \<Longrightarrow> show_nat n = [digit n]"
  by (simp add: show_nat.simps)

lemma show_nat_0 [simp]: "show_nat 0 = ''0''"
  by (simp add: show_nat_digit digit_def)

text \<open>White space beyond ASCII: a no-break space, a line separator and a byte order mark
  are white space, a zero width space (U+200B) is not.\<close>

lemma replace_spaces_separators:
  "replace_spaces (''Summer'' @ [CHR 0xC2, CHR 0xA0, CHR 0x20, CHR 0xE2, CHR 0x80, CHR 0xA8]
                   @ ''Sale'' @ [CHR 0x09])
     = ''Summer-Sale-''"
  by code_simp

lemma trim_separators:
  "trim ([CHR 0xEF, CHR 0xBB, CHR 0xBF, CHR 0x20] @ ''a'' @ [CHR 0xE2, CHR 0x80, CHR 0x8B]
         @ '' b'' @ [CHR 0xE2, CHR 0x80, CHR 0xA9, CHR 0xC2, CHR 0xA0])
     = ''a'' @ [CHR 0xE2, CHR 0x80, CHR 0x8B] @ '' b''"
  by code_simp

lemma trim_zero_width:
  "trim ([CHR 0xE2, CHR 0x80, CHR 0x8B] @ ''a'') = [CHR 0xE2, CHR 0x80, CHR 0x8B] @ ''a''"
  by code_simp

section \<open>Prompt enhancement\<close>

text \<open>
  C1, as the code has it. With a credential, enhancePrompt always returns a string and
  raises nothing. It returns the completion, which is the content of the first choice
  without the white space at its two ends, whenever the response has one and it is not
  empty; it returns the user's prompt unchanged in every other case (the call rejects,
  the response has no readable content, or only white space). Without a credential it
  raises "OpenAI API key is not configured" to its caller, whatever the network would
  have done.
\<close>

theorem enhancePrompt_best_effort:
  "(key_present apiKey \<longrightarrow>
      (\<exists>r. enhancePrompt apiKey chat userPrompt = Inr r \<and>
           (r = userPrompt \<or>
            (\<exists>response. chat = ChatResponds response \<and> r \<noteq> [] \<and>
                        completion_content response = Inr (Some r)))) \<and>
      enhancePrompt apiKey ChatRejects userPrompt = Inr userPrompt \<and>
      (\<forall>response. (\<forall>r. r \<noteq> [] \<longrightarrow> completion_content response \<noteq> Inr (Some r)) \<longrightarrow>
         enhancePrompt apiKey (ChatResponds response) userPrompt = Inr userPrompt) \<and>
      (\<forall>response r. completion_content response = Inr (Some r) \<and> r \<noteq> [] \<longrightarrow>
         enhancePrompt apiKey (ChatResponds response) userPrompt = Inr r) \<and>
      (\<forall>response choices first content.
         member (Some response) ''choices'' = Inr choices \<and>
         member choices ''0'' = Inr first \<and>
         opt_member (opt_member first ''message'') ''content'' = Some (JStr content) \<longrightarrow>
         enhancePrompt apiKey (ChatResponds response) userPrompt
           = Inr (if trim content = [] then userPrompt else trim content))) \<and>
   (\<not> key_present apiKey \<longrightarrow>
      enhancePrompt apiKey chat userPrompt = Inl (Error ''OpenAI API key is not configured''))"
proof -
  have returns: "\<exists>r. enhancePrompt apiKey chat userPrompt = Inr r \<and>
           (r = userPrompt \<or>
            (\<exists>response. chat = ChatResponds response \<and> r \<noteq> [] \<and>
                        completion_content response = Inr (Some r)))"
    if "key_present apiKey"
    using that by (auto simp: enhancePrompt_def split: chat_outcome.splits sum.splits option.splits)
  have rejects: "enhancePrompt apiKey ChatRejects userPrompt = Inr userPrompt"
    if "key_present apiKey"
    using that by (simp add: enhancePrompt_def)
  have unreadable: "enhancePrompt apiKey (ChatResponds response) userPrompt = Inr userPrompt"
    if "key_present apiKey"
      and "\<forall>r. r \<noteq> [] \<longrightarrow> completion_content response \<noteq> Inr (Some r)" for response
    using that by (auto simp: enhancePrompt_def split: sum.splits option.splits)
  have readable: "enhancePrompt apiKey (ChatResponds response) userPrompt = Inr r"
    if "key_present apiKey" and "completion_content response = Inr (Some r) \<and> r \<noteq> []"
    for response r
    using that by (simp add: enhancePrompt_def)
  have content: "enhancePrompt apiKey (ChatResponds response) userPrompt
                   = Inr (if trim content = [] then userPrompt else trim content)"
    if "key_present apiKey"
      and "member (Some response) ''choices'' = Inr choices \<and>
           member choices ''0'' = Inr first \<and>
           opt_member (opt_member first ''message'') ''content'' = Some (JStr content)"
    for response choices first content
  proof -
    from that(2) have "completion_content response = Inr (Some (trim content))"
      by (simp add: completion_content_def)
    with that(1) show ?thesis
      by (simp add: enhancePrompt_def)
  qed
  have missing: "enhancePrompt apiKey chat userPrompt = Inl (Error ''OpenAI API key is not configured'')"
    if "\<not> key_present apiKey"
    using that by (simp add: enhancePrompt_def)
  show ?thesis
  proof (intro conjI impI allI)
    assume "key_present apiKey"
    then show "\<exists>r. enhancePrompt apiKey chat userPrompt = Inr r \<and>
           (r = userPrompt \<or>
            (\<exists>response. chat = ChatResponds response \<and> r \<noteq> [] \<and>
                        completion_content response = Inr (Some r)))"
      by (rule returns)
  next
    assume "key_present apiKey"
    then show "enhancePrompt apiKey ChatRejects userPrompt = Inr userPrompt"
      by (rule rejects)
  next
    fix response
    assume "key_present apiKey"
      and "\<forall>r. r \<noteq> [] \<longrightarrow> completion_content response \<noteq> Inr (Some r)"
    then show "enhancePrompt apiKey (ChatResponds response) userPrompt = Inr userPrompt"
      by (rule unreadable)
  next
    fix response r
    assume "key_present apiKey" and "completion_content response = Inr (Some r) \<and> r \<noteq> []"
    then show "enhancePrompt apiKey (ChatResponds response) userPrompt = Inr r"
      by (rule readable)
  next
    fix response choices first content
    assume "key_present apiKey"
      and "member (Some response) ''choices'' = Inr choices \<and>
           member choices ''0'' = Inr first \<and>
           opt_member (opt_member first ''message'') ''content'' = Some (JStr content)"
    then show "enhancePrompt apiKey (ChatResponds response) userPrompt
                 = Inr (if trim content = [] then userPrompt else trim content)"
      by (rule content)
  next
    assume "\<not> key_present apiKey"
    then show "enhancePrompt apiKey chat userPrompt
                 = Inl (Error ''OpenAI API key is not configured'')"
      by (rule missing)
  qed
qed

lemma trim_chat_ok: "trim ''  A glossy blue mug. '' = ''A glossy blue mug.''"
  by code_simp

lemma completion_content_chat_ok: "completion_content chat_ok = Inr (Some ''A glossy blue mug.'')"
  by (simp add: completion_content_def chat_ok_def member_def opt_member_def get_def
      trim_chat_ok)

lemma trim_chat_padded:
  "trim ([CHR 0xC2, CHR 0xA0] @ ''A mug'' @ [CHR 0xE2, CHR 0x80, CHR 0x89, CHR 0x0A]) = ''A mug''"
  by code_simp

lemma trim_chat_blank: "trim [CHR 0x20, CHR 0xE3, CHR 0x80, CHR 0x80, CHR 0x09] = []"
  by code_simp

lemma content_chat_padded:
  "member (Some chat_padded) ''choices'' = Inr (Some (JArr [choice_padded])) \<and>
   member (Some (JArr [choice_padded])) ''0'' = Inr (Some choice_padded) \<and>
   opt_member (opt_member (Some choice_padded) ''message'') ''content''
     = Some (JStr ([CHR 0xC2, CHR 0xA0] @ ''A mug'' @ [CHR 0xE2, CHR 0x80, CHR 0x89, CHR 0x0A]))"
  by (simp add: chat_padded_def choice_padded_def member_def opt_member_def get_def)

lemma completion_content_chat_blank: "completion_content chat_blank = Inr (Some [])"
  using trim_chat_blank
  by (simp add: completion_content_def chat_blank_def member_def opt_member_def get_def)

theorem enhancePrompt_best_effort_witness:
  "key_present (Some ''sk-test'') \<and> \<not> key_present None \<and>
   enhancePrompt (Some ''sk-test'') ChatRejects ''Blue ceramic mug'' = Inr ''Blue ceramic mug'' \<and>
   enhancePrompt (Some ''sk-test'') (ChatResponds JNull) ''Blue ceramic mug''
     = Inr ''Blue ceramic mug'' \<and>
   enhancePrompt (Some ''sk-test'') (ChatResponds chat_blank) ''Blue ceramic mug''
     = Inr ''Blue ceramic mug'' \<and>
   enhancePrompt (Some ''sk-test'') (ChatResponds chat_ok) ''Blue ceramic mug''
     = Inr ''A glossy blue mug.'' \<and>
   enhancePrompt (Some ''sk-test'') (ChatResponds chat_padded) ''Blue ceramic mug''
     = Inr ''A mug'' \<and>
   enhancePrompt None (ChatResponds chat_ok) ''Blue ceramic mug''
     = Inl (Error ''OpenAI API key is not configured'')"
proof -
  have k: "key_present (Some ''sk-test'')" and nk: "\<not> key_present None"
    by (simp_all add: key_present_def)
  have null: "\<forall>r. r \<noteq> [] \<longrightarrow> completion_content JNull \<noteq> Inr (Some r)"
    by (simp add: completion_content_def member_def)
  have blank: "\<forall>r. r \<noteq> [] \<longrightarrow> completion_content chat_blank \<noteq> Inr (Some r)"
    by (simp add: completion_content_chat_blank)
  have ok: "completion_content chat_ok = Inr (Some ''A glossy blue mug.'') \<and>
            ''A glossy blue mug.'' \<noteq> []"
    by (simp add: completion_content_chat_ok)
  note fact = enhancePrompt_best_effort [of "Some ''sk-test''" ChatRejects "''Blue ceramic mug''"]
  have a: "enhancePrompt (Some ''sk-test'') ChatRejects ''Blue ceramic mug'' = Inr ''Blue ceramic mug''"
    using fact k by blast
  have b: "enhancePrompt (Some ''sk-test'') (ChatResponds JNull) ''Blue ceramic mug''
             = Inr ''Blue ceramic mug''"
    using fact k null by blast
  have b': "enhancePrompt (Some ''sk-test'') (ChatResponds chat_blank) ''Blue ceramic mug''
             = Inr ''Blue ceramic mug''"
    using fact k blank by blast
  have c: "enhancePrompt (Some ''sk-test'') (ChatResponds chat_ok) ''Blue ceramic mug''
             = Inr ''A glossy blue mug.''"
    using fact k ok by blast
  have "enhancePrompt (Some ''sk-test'') (ChatResponds chat_padded) ''Blue ceramic mug''
          = Inr (if trim ([CHR 0xC2, CHR 0xA0] @ ''A mug'' @ [CHR 0xE2, CHR 0x80, CHR 0x89, CHR 0x0A]) = []
                 then ''Blue ceramic mug''
                 else trim ([CHR 0xC2, CHR 0xA0] @ ''A mug'' @ [CHR 0xE2, CHR 0x80, CHR 0x89, CHR 0x0A]))"
    using fact k content_chat_padded by blast
  then have c': "enhancePrompt (Some ''sk-test'') (ChatResponds chat_padded) ''Blue ceramic mug''
             = Inr ''A mug''"
    unfolding trim_chat_padded by simp
  have d: "enhancePrompt None (ChatResponds chat_ok) ''Blue ceramic mug''
             = Inl (Error ''OpenAI API key is not configured'')"
    using enhancePrompt_best_effort [of None "ChatResponds chat_ok" "''Blue ceramic mug''"] nk
    by blast
  from k nk a b b' c c' d show ?thesis by simp
qed

text \<open>The claim as the spec words it fails where the credential is missing: the caller
  gets an error, not the original string.\<close>

theorem enhancePrompt_missing_credential_counterexample:
  "\<not> (\<forall>apiKey chat userPrompt. \<exists>r. enhancePrompt apiKey chat userPrompt = Inr r)"
proof
  assume "\<forall>apiKey chat userPrompt. \<exists>r. enhancePrompt apiKey chat userPrompt = Inr r"
  then obtain r where "enhancePrompt None ChatRejects ''Blue ceramic mug'' = Inr r" by blast
  then show False by (simp add: enhancePrompt_def key_present_def)
qed

section \<open>Rating\<close>

lemma rate_absent: "i \<notin> ad_id ` set ads \<Longrightarrow> rate i r ads = ads"
  unfolding rate_def by (induction ads) auto

text \<open>
  C10. Rating an identifier that no ad of the batch carries leaves the whole session as it
  was. Otherwise the batch keeps its length and order; an ad with that identifier gets the
  rating and keeps its id, imageUrl, adType and isRegenerating; every other ad is
  unchanged; and nothing else of the session changes. The rating is any integer: the
  handler checks no range.
\<close>

theorem handleRateAd_frame:
  "(i \<notin> ad_id ` set (generatedAds s) \<longrightarrow> handleRateAd i r s = s) \<and>
   length (generatedAds (handleRateAd i r s)) = length (generatedAds s) \<and>
   (\<forall>k < length (generatedAds s).
      (ad_id (generatedAds s ! k) = i \<longrightarrow>
         generatedAds (handleRateAd i r s) ! k = (generatedAds s ! k)\<lparr>rating := Some r\<rparr> \<and>
         rating (generatedAds (handleRateAd i r s) ! k) = Some r \<and>
         ad_id (generatedAds (handleRateAd i r s) ! k) = ad_id (generatedAds s ! k) \<and>
         imageUrl (generatedAds (handleRateAd i r s) ! k) = imageUrl (generatedAds s ! k) \<and>
         adType (generatedAds (handleRateAd i r s) ! k) = adType (generatedAds s ! k) \<and>
         isRegenerating (generatedAds (handleRateAd i r s) ! k)
           = isRegenerating (generatedAds s ! k)) \<and>
      (ad_id (generatedAds s ! k) \<noteq> i \<longrightarrow>
         generatedAds (handleRateAd i r s) ! k = generatedAds s ! k)) \<and>
   handleRateAd i r s = s\<lparr>generatedAds := generatedAds (handleRateAd i r s)\<rparr>"
proof -
  have absent: "i \<notin> ad_id ` set (generatedAds s) \<longrightarrow> handleRateAd i r s = s"
    by (simp add: handleRateAd_def rate_absent)
  have len: "length (generatedAds (handleRateAd i r s)) = length (generatedAds s)"
    by (simp add: handleRateAd_def rate_def)
  have pointwise: "\<And>k. k < length (generatedAds s) \<Longrightarrow>
      generatedAds (handleRateAd i r s) ! k =
        (if ad_id (generatedAds s ! k) = i then (generatedAds s ! k)\<lparr>rating := Some r\<rparr>
         else generatedAds s ! k)"
    by (simp add: handleRateAd_def rate_def)
  have rest: "handleRateAd i r s = s\<lparr>generatedAds := generatedAds (handleRateAd i r s)\<rparr>"
    by (simp add: handleRateAd_def)
  from absent len pointwise rest show ?thesis by simp
qed

theorem handleRateAd_frame_witness:
  "handleRateAd ''9'' 7 session0 = session0 \<and>
   generatedAds (handleRateAd ''2'' 0 session0) = [ad1, ad2\<lparr>rating := Some 0\<rparr>] \<and>
   generatedAds (handleRateAd ''1'' 6 session0) ! 0 = ad1\<lparr>rating := Some 6\<rparr> \<and>
   generatedAds (handleRateAd ''1'' 6 session0) ! 1 = ad2"
proof -
  have ids: "ad_id ` set (generatedAds session0) = {''1'', ''2''}"
    by (simp add: session0_def ad1_def ad2_def)
  have a: "handleRateAd ''9'' 7 session0 = session0"
    using handleRateAd_frame [of "''9''" session0 7] ids by simp
  have b: "generatedAds (handleRateAd ''2'' 0 session0) = [ad1, ad2\<lparr>rating := Some 0\<rparr>]"
    by (simp add: handleRateAd_def rate_def session0_def ad1_def ad2_def)
  have c: "generatedAds (handleRateAd ''1'' 6 session0) ! 0 = ad1\<lparr>rating := Some 6\<rparr>"
    using handleRateAd_frame [of "''1''" session0 6]
    by (simp add: session0_def ad1_def)
  have d: "generatedAds (handleRateAd ''1'' 6 session0) ! 1 = ad2"
    using handleRateAd_frame [of "''1''" session0 6]
    by (simp add: session0_def ad1_def ad2_def)
  from a b c d show ?thesis by simp
qed

section \<open>Single requests\<close>

lemma images_loop_done: "images_loop reqs p img sz n n acc tr = (tr, Inr acc)"
  by (subst images_loop.simps) simp

lemma images_loop_single:
  "images_loop reqs p img sz (Suc 0) 0 [] [] =
     (fst (request (reqs 0) (variedPrompt p 0 (Suc 0)) img sz),
      case snd (request (reqs 0) (variedPrompt p 0 (Suc 0)) img sz) of
        Inl e \<Rightarrow> Inl e
      | Inr url \<Rightarrow> Inr [url])"
  by (subst images_loop.simps) (simp add: images_loop_done split: prod.splits sum.splits)

lemma generateImages_single:
  "key_present k \<Longrightarrow>
   generateImages k reqs p img (Suc 0) sz =
     (fst (request (reqs 0) (variedPrompt p 0 (Suc 0)) img sz),
      case snd (request (reqs 0) (variedPrompt p 0 (Suc 0)) img sz) of
        Inl e \<Rightarrow> Inl (Error (image_error e))
      | Inr url \<Rightarrow> Inr [url])"
  by (simp add: generateImages_def images_loop_single split: sum.splits)

lemma extract_edit_ok: "extract_image edit_ok = Inr (JStr ''https://cdn.example/new.png'')"
  by (simp add: extract_image_def edit_ok_def member_def get_def first_item_def)

lemma request_edit_ok:
  "snd (request (Responds 200 (Some edit_ok)) p img sz) = Inr (JStr ''https://cdn.example/new.png'')"
  by (simp add: request_def response_ok_def extract_edit_ok)

lemma key_test: "key_present (Some ''sk-test'')"
  by (simp add: key_present_def)

lemma regenerate_image_env_ok:
  "regenerate_image env_ok ad1 (Readable u) ''Blue ceramic mug'' = Inr [JStr ''https://cdn.example/new.png'']"
  apply (simp add: regenerate_image_def env_ok_def ad1_def current_adTypes_def default_adTypes_def adTypeSpec_def
     member_def get_def enhancePrompt_def key_test completion_content_chat_ok generateImages_single request_edit_ok)
  done

lemma handle_env_ok:
  "generatedAds (handleRegenerateAd env_ok ''1'' session0) = [ad1\<lparr>imageUrl := JStr ''https://cdn.example/new.png'', rating := None, isRegenerating := Some False\<rparr>, ad2]"
  apply (simp add: handleRegenerateAd_def session0_def regenerate_image_env_ok Let_def)
  apply (simp add: ad1_def ad2_def replace_image_def mark_regenerating_def)
  done

lemma handle_env_nokey:
  "generatedAds (handleRegenerateAd env_nokey ''1'' session0) = [ad1\<lparr>imageUrl := placeholder ''0.42'', rating := None, isRegenerating := Some False\<rparr>, ad2]"
  apply (simp add: handleRegenerateAd_def session0_def Let_def)
  apply (simp add: ad1_def ad2_def replace_image_def mark_regenerating_def regenerate_image_def env_nokey_def env_ok_def
      current_adTypes_def default_adTypes_def adTypeSpec_def member_def get_def enhancePrompt_def key_present_def)
  done

section \<open>Regeneration\<close>

lemma replace_image_mark: "replace_image i url (mark_regenerating i ads) = replace_image i url ads"
  by (simp add: replace_image_def mark_regenerating_def)

lemma ids_replace_image: "map ad_id (replace_image i url ads) = map ad_id ads"
  by (simp add: replace_image_def)

lemma adTypes_replace_image: "map adType (replace_image i url ads) = map adType ads"
  by (simp add: replace_image_def)

lemma ids_reset_regenerating: "map ad_id (reset_regenerating i ads) = map ad_id ads"
  by (simp add: reset_regenerating_def)

lemma adTypes_reset_regenerating: "map adType (reset_regenerating i ads) = map adType ads"
  by (simp add: reset_regenerating_def)

lemma find_id_None: "(find (\<lambda>ad. ad_id ad = i) ads = None) = (i \<notin> ad_id ` set ads)"
  by (auto simp: find_None_iff)

text \<open>The batch after a regeneration: nothing when the id is absent, and otherwise the
  image of the ads with that id replaced, by the new image or by the placeholder.\<close>

lemma handleRegenerateAd_result:
  "handleRegenerateAd env i s = s \<and> i \<notin> ad_id ` set (generatedAds s) \<or>
   i \<in> ad_id ` set (generatedAds s) \<and>
   (\<exists>url. handleRegenerateAd env i s = s\<lparr>generatedAds := replace_image i url (generatedAds s)\<rparr>)"
proof (cases "find (\<lambda>ad. ad_id ad = i) (generatedAds s)")
  case None
  then have "i \<notin> ad_id ` set (generatedAds s)"
    using find_id_None [of i "generatedAds s"] by simp
  moreover from None have "handleRegenerateAd env i s = s"
    by (simp add: handleRegenerateAd_def)
  ultimately show ?thesis by simp
next
  case (Some a)
  then have "i \<in> ad_id ` set (generatedAds s)"
    using find_id_None [of i "generatedAds s"] by auto
  with Some show ?thesis
    by (auto simp: handleRegenerateAd_def Let_def replace_image_mark split: sum.splits list.splits)
qed

lemma replace_image_nth:
  "k < length ads \<Longrightarrow>
   replace_image i url ads ! k =
     (if ad_id (ads ! k) = i
      then (ads ! k)\<lparr>imageUrl := url, rating := None, isRegenerating := Some False\<rparr>
      else ads ! k)"
  by (simp add: replace_image_def)

lemma reset_regenerating_nth:
  "k < length ads \<Longrightarrow>
   reset_regenerating i ads ! k =
     (if ad_id (ads ! k) = i then (ads ! k)\<lparr>isRegenerating := Some False\<rparr> else ads ! k)"
  by (simp add: reset_regenerating_def)

text \<open>
  C6. Regenerating an identifier that no ad of the batch carries changes nothing. Otherwise
  the batch keeps the id and the adType of every ad, in order; an ad with another
  identifier is unchanged altogether; an ad with the identifier has isRegenerating false
  afterwards, whether the new image came from the API or is the placeholder; and nothing
  else of the session changes. The two finishing updates (the replacement of the image,
  and the reset of the outer handler) do the same on any batch, such as one that a
  rating has changed while the request was outstanding: ids and adTypes stay, the flag
  of the ad is false, every other ad is untouched.
\<close>

theorem handleRegenerateAd_frame:
  "(i \<notin> ad_id ` set (generatedAds s) \<longrightarrow> handleRegenerateAd env i s = s) \<and>
   handleRegenerateAd env i s = s\<lparr>generatedAds := generatedAds (handleRegenerateAd env i s)\<rparr> \<and>
   map ad_id (generatedAds (handleRegenerateAd env i s)) = map ad_id (generatedAds s) \<and>
   map adType (generatedAds (handleRegenerateAd env i s)) = map adType (generatedAds s) \<and>
   (\<forall>k < length (generatedAds s).
      (ad_id (generatedAds s ! k) = i \<longrightarrow>
         isRegenerating (generatedAds (handleRegenerateAd env i s) ! k) = Some False) \<and>
      (ad_id (generatedAds s ! k) \<noteq> i \<longrightarrow>
         generatedAds (handleRegenerateAd env i s) ! k = generatedAds s ! k)) \<and>
   map ad_id (reset_regenerating i ads) = map ad_id ads \<and>
   map adType (reset_regenerating i ads) = map adType ads \<and>
   (\<forall>k < length ads.
      (ad_id (ads ! k) = i \<longrightarrow> isRegenerating (reset_regenerating i ads ! k) = Some False) \<and>
      (ad_id (ads ! k) \<noteq> i \<longrightarrow> reset_regenerating i ads ! k = ads ! k)) \<and>
   map ad_id (replace_image i url ads) = map ad_id ads \<and>
   map adType (replace_image i url ads) = map adType ads \<and>
   (\<forall>k < length ads.
      (ad_id (ads ! k) = i \<longrightarrow> isRegenerating (replace_image i url ads ! k) = Some False) \<and>
      (ad_id (ads ! k) \<noteq> i \<longrightarrow> replace_image i url ads ! k = ads ! k))"
proof -
  have absent: "i \<notin> ad_id ` set (generatedAds s) \<longrightarrow> handleRegenerateAd env i s = s"
    using handleRegenerateAd_result [of env i s] by auto
  have rest: "handleRegenerateAd env i s
                = s\<lparr>generatedAds := generatedAds (handleRegenerateAd env i s)\<rparr>"
    using handleRegenerateAd_result [of env i s] by auto
  have ids: "map ad_id (generatedAds (handleRegenerateAd env i s)) = map ad_id (generatedAds s)"
    using handleRegenerateAd_result [of env i s] by (auto simp: ids_replace_image)
  have types: "map adType (generatedAds (handleRegenerateAd env i s)) = map adType (generatedAds s)"
    using handleRegenerateAd_result [of env i s] by (auto simp: adTypes_replace_image)
  have pointwise: "(ad_id (generatedAds s ! k) = i \<longrightarrow>
         isRegenerating (generatedAds (handleRegenerateAd env i s) ! k) = Some False) \<and>
      (ad_id (generatedAds s ! k) \<noteq> i \<longrightarrow>
         generatedAds (handleRegenerateAd env i s) ! k = generatedAds s ! k)"
    if "k < length (generatedAds s)" for k
    using handleRegenerateAd_result [of env i s] that
    by (auto simp: replace_image_nth)
  have handler: "(ad_id (ads ! k) = i \<longrightarrow> isRegenerating (reset_regenerating i ads ! k) = Some False) \<and>
      (ad_id (ads ! k) \<noteq> i \<longrightarrow> reset_regenerating i ads ! k = ads ! k)"
    if "k < length ads" for k
    using that by (simp add: reset_regenerating_nth)
  have finish: "(ad_id (ads ! k) = i \<longrightarrow> isRegenerating (replace_image i url ads ! k) = Some False) \<and>
      (ad_id (ads ! k) \<noteq> i \<longrightarrow> replace_image i url ads ! k = ads ! k)"
    if "k < length ads" for k
    using that by (simp add: replace_image_nth)
  from absent rest ids types pointwise handler finish show ?thesis
    by (simp add: ids_reset_regenerating adTypes_reset_regenerating ids_replace_image
        adTypes_replace_image)
qed

theorem handleRegenerateAd_frame_witness:
  "handleRegenerateAd env_ok ''7'' session0 = session0 \<and>
   map ad_id (generatedAds (handleRegenerateAd env_ok ''1'' session0)) = [''1'', ''2''] \<and>
   map adType (generatedAds (handleRegenerateAd env_nokey ''1'' session0))
     = [Some ''Creative Concept Ad'', Some ''Benefit Highlight Ad''] \<and>
   isRegenerating (generatedAds (handleRegenerateAd env_ok ''1'' session0) ! 0) = Some False \<and>
   isRegenerating (generatedAds (handleRegenerateAd env_nokey ''1'' session0) ! 0) = Some False \<and>
   generatedAds (handleRegenerateAd env_ok ''1'' session0) ! 1 = ad2 \<and>
   imageUrl (generatedAds (handleRegenerateAd env_ok ''1'' session0) ! 0)
     = JStr ''https://cdn.example/new.png'' \<and>
   imageUrl (generatedAds (handleRegenerateAd env_nokey ''1'' session0) ! 0) = placeholder ''0.42''"
proof -
  have ads: "generatedAds session0 = [ad1, ad2]"
    by (simp add: session0_def)
  have ids: "ad_id ad1 = ''1''" "ad_id ad2 = ''2''"
    by (simp_all add: ad1_def ad2_def)
  have types: "adType ad1 = Some ''Creative Concept Ad''" "adType ad2 = Some ''Benefit Highlight Ad''"
    by (simp_all add: ad1_def ad2_def)
  have a: "handleRegenerateAd env_ok ''7'' session0 = session0"
    using handleRegenerateAd_frame [of "''7''" session0 env_ok "[]"] by (simp add: ads ids)
  have b: "map ad_id (generatedAds (handleRegenerateAd env_ok ''1'' session0)) = [''1'', ''2'']"
    using handleRegenerateAd_frame [of "''1''" session0 env_ok "[]"] by (simp add: ads ids)
  have c: "map adType (generatedAds (handleRegenerateAd env_nokey ''1'' session0))
     = [Some ''Creative Concept Ad'', Some ''Benefit Highlight Ad'']"
    using handleRegenerateAd_frame [of "''1''" session0 env_nokey "[]"] by (simp add: ads types)
  have d: "isRegenerating (generatedAds (handleRegenerateAd env_ok ''1'' session0) ! 0) = Some False"
    using handleRegenerateAd_frame [of "''1''" session0 env_ok "[]"] by (simp add: ads ids)
  have e: "isRegenerating (generatedAds (handleRegenerateAd env_nokey ''1'' session0) ! 0) = Some False"
    using handleRegenerateAd_frame [of "''1''" session0 env_nokey "[]"] by (simp add: ads ids)
  have f: "generatedAds (handleRegenerateAd env_ok ''1'' session0) ! 1 = ad2"
    using handleRegenerateAd_frame [of "''1''" session0 env_ok "[]"] by (simp add: ads ids)
  have g: "imageUrl (generatedAds (handleRegenerateAd env_ok ''1'' session0) ! 0)
     = JStr ''https://cdn.example/new.png''"
    by (simp add: handle_env_ok)
  have h: "imageUrl (generatedAds (handleRegenerateAd env_nokey ''1'' session0) ! 0) = placeholder ''0.42''"
    by (simp add: handle_env_nokey)
  from a b c d e f g h show ?thesis by simp
qed

text \<open>
  C7. Regenerating an ad that is in the batch leaves its rating absent: the batch afterwards
  is the old one with the image of that ad replaced, its rating cleared and its flag
  false, where the image is the first one the generator returned or, in every other case,
  the placeholder with the random suffix.
\<close>

theorem handleRegenerateAd_clears_rating:
  "i \<in> ad_id ` set (generatedAds s) \<Longrightarrow>
   (\<exists>k < length (generatedAds s). ad_id (generatedAds s ! k) = i) \<and>
   (\<forall>k < length (generatedAds s). ad_id (generatedAds s ! k) = i \<longrightarrow>
      rating (generatedAds (handleRegenerateAd env i s) ! k) = None) \<and>
   (\<exists>url. generatedAds (handleRegenerateAd env i s) = replace_image i url (generatedAds s) \<and>
      (url = placeholder (random_text env) \<or>
       (\<exists>ad urls. find (\<lambda>ad. ad_id ad = i) (generatedAds s) = Some ad \<and>
          productImage s \<noteq> None \<and> productDescription s \<noteq> [] \<and>
          regenerate_image env ad (the (productImage s)) (productDescription s)
            = Inr (url # urls))))"
proof -
  assume present: "i \<in> ad_id ` set (generatedAds s)"
  then obtain a where found: "find (\<lambda>ad. ad_id ad = i) (generatedAds s) = Some a"
    using find_id_None [of i "generatedAds s"] by (cases "find (\<lambda>ad. ad_id ad = i) (generatedAds s)") auto
  from present have ex: "\<exists>k < length (generatedAds s). ad_id (generatedAds s ! k) = i"
    by (auto simp: in_set_conv_nth)
  have paths: "\<exists>url. generatedAds (handleRegenerateAd env i s) = replace_image i url (generatedAds s) \<and>
      (url = placeholder (random_text env) \<or>
       (\<exists>ad urls. find (\<lambda>ad. ad_id ad = i) (generatedAds s) = Some ad \<and>
          productImage s \<noteq> None \<and> productDescription s \<noteq> [] \<and>
          regenerate_image env ad (the (productImage s)) (productDescription s)
            = Inr (url # urls)))"
    using found
    by (auto simp: handleRegenerateAd_def Let_def replace_image_mark split: sum.splits list.splits)
  then obtain url where
    "generatedAds (handleRegenerateAd env i s) = replace_image i url (generatedAds s)" by blast
  then have cleared: "\<forall>k < length (generatedAds s). ad_id (generatedAds s ! k) = i \<longrightarrow>
      rating (generatedAds (handleRegenerateAd env i s) ! k) = None"
    by (simp add: replace_image_nth)
  from ex cleared paths show ?thesis by blast
qed

theorem handleRegenerateAd_clears_rating_witness:
  "''1'' \<in> ad_id ` set (generatedAds session0) \<and>
   rating (generatedAds session0 ! 0) = Some 4 \<and>
   rating (generatedAds (handleRegenerateAd env_ok ''1'' session0) ! 0) = None \<and>
   rating (generatedAds (handleRegenerateAd env_nokey ''1'' session0) ! 0) = None \<and>
   generatedAds (handleRegenerateAd env_ok ''1'' session0)
     = replace_image ''1'' (JStr ''https://cdn.example/new.png'') (generatedAds session0) \<and>
   generatedAds (handleRegenerateAd env_nokey ''1'' session0)
     = replace_image ''1'' (placeholder ''0.42'') (generatedAds session0)"
proof -
  have present: "''1'' \<in> ad_id ` set (generatedAds session0)"
    by (simp add: session0_def ad1_def)
  have before: "rating (generatedAds session0 ! 0) = Some 4"
    by (simp add: session0_def ad1_def)
  have first: "ad_id (generatedAds session0 ! 0) = ''1''" "0 < length (generatedAds session0)"
    by (simp_all add: session0_def ad1_def)
  have a: "rating (generatedAds (handleRegenerateAd env_ok ''1'' session0) ! 0) = None"
    using handleRegenerateAd_clears_rating [OF present, of env_ok] first by blast
  have b: "rating (generatedAds (handleRegenerateAd env_nokey ''1'' session0) ! 0) = None"
    using handleRegenerateAd_clears_rating [OF present, of env_nokey] first by blast
  have c: "generatedAds (handleRegenerateAd env_ok ''1'' session0)
     = replace_image ''1'' (JStr ''https://cdn.example/new.png'') (generatedAds session0)"
    by (subst handle_env_ok) (simp add: session0_def replace_image_def ad1_def ad2_def)
  have d: "generatedAds (handleRegenerateAd env_nokey ''1'' session0)
     = replace_image ''1'' (placeholder ''0.42'') (generatedAds session0)"
    by (subst handle_env_nokey) (simp add: session0_def replace_image_def ad1_def ad2_def)
  from present before a b c d show ?thesis by simp
qed

section \<open>The prompt configuration\<close>




lemma resolve_unreachable:
  "resolve_config FetchRejects d = \<lparr>basePrompt = default_basePrompt d, adTypes = default_adTypes\<rparr>"
  by (simp add: resolve_config_def)



lemma member_not_null: "v \<noteq> JNull \<Longrightarrow> member (Some v) k = Inr (get v k)"
  by (cases v) (simp_all add: member_def)

lemma resolve_parsed:
  "response_ok st \<Longrightarrow> cfg \<noteq> JNull \<Longrightarrow>
   resolve_config (FetchResponds st (Some cfg)) d =
     (if \<not> truthy_val (get cfg ''basePrompt'')
      then apply_adTypes cfg \<lparr>basePrompt = default_basePrompt d, adTypes = default_adTypes\<rparr>
      else (case as_string (get cfg ''basePrompt'') of
              Some t \<Rightarrow> apply_adTypes cfg
                \<lparr>basePrompt = str_replace t ''{DESCRIPTION}'' d, adTypes = default_adTypes\<rparr>
            | None \<Rightarrow> \<lparr>basePrompt = default_basePrompt d, adTypes = default_adTypes\<rparr>))"
  by (simp add: resolve_config_def member_not_null Let_def split: option.splits)





text \<open>A description with a dollar pattern is not inserted as it is: \<open>$&\<close> stands for
  the placeholder itself.\<close>

lemma str_replace_dollar_example:
  "str_replace ''Ad for {DESCRIPTION}'' ''{DESCRIPTION}'' ''a $& mug''
     = ''Ad for a {DESCRIPTION} mug''"
  by (simp add: str_replace_def startsWith_def)


section \<open>The end of a run\<close>

lemma fold_fire_isGenerating:
  "isGenerating (fold (\<lambda>(delay, action). fire action) ts s) = (isGenerating s \<and> ts = [])"
proof (induction ts arbitrary: s)
  case Nil
  then show ?case by simp
next
  case (Cons t ts)
  obtain delay action where t: "t = (delay, action)" by (cases t)
  show ?case by (cases action) (simp add: t Cons.IH)
qed

lemma fold_fire_timeouts:
  "timeouts (fold (\<lambda>(delay, action). fire action) ts s) = timeouts s"
proof (induction ts arbitrary: s)
  case Nil
  then show ?case by simp
next
  case (Cons t ts)
  obtain delay action where t: "t = (delay, action)" by (cases t)
  show ?case by (cases action) (simp add: t Cons.IH)
qed

lemma run_timeouts_clears:
  "isGenerating s \<longrightarrow> timeouts s \<noteq> [] \<Longrightarrow> isGenerating (run_timeouts s) = False"
  by (auto simp: run_timeouts_def fold_fire_isGenerating)

lemma run_timeouts_empties: "timeouts (run_timeouts s) = []"
  by (simp add: run_timeouts_def fold_fire_timeouts)

text \<open>A tick writes the progress and nothing else, never more than 95 and never the
  message of completion.\<close>

lemma tick_frame:
  "currentStep (tick j s) = currentStep s \<and>
   productDescription (tick j s) = productDescription s \<and>
   productImage (tick j s) = productImage s \<and>
   generatedAds (tick j s) = generatedAds s \<and>
   generationError (tick j s) = generationError s \<and>
   isGenerating (tick j s) = isGenerating s \<and>
   timeouts (tick j s) = timeouts s"
  by (simp add: tick_def Let_def split: option.splits prod.splits)

lemma ticks_frame:
  "currentStep (ticks js s) = currentStep s \<and>
   productDescription (ticks js s) = productDescription s \<and>
   productImage (ticks js s) = productImage s \<and>
   generatedAds (ticks js s) = generatedAds s \<and>
   generationError (ticks js s) = generationError s \<and>
   isGenerating (ticks js s) = isGenerating s \<and>
   timeouts (ticks js s) = timeouts s"
  by (induction js arbitrary: s) (simp_all add: ticks_def tick_frame)

lemma tick_progressValue: "progressValue s \<le> 95 \<Longrightarrow> progressValue (tick j s) \<le> 95"
  by (simp add: tick_def Let_def maxProgress_def split: option.splits prod.splits)

lemma ticks_progressValue: "progressValue s \<le> 95 \<Longrightarrow> progressValue (ticks js s) \<le> 95"
  by (induction js arbitrary: s) (simp_all add: ticks_def tick_progressValue)

lemma messages_not_complete: "find P (rev messages) = Some (threshold, message) \<Longrightarrow> message \<noteq> ''Complete!''"
proof -
  assume "find P (rev messages) = Some (threshold, message)"
  then obtain i where "i < length (rev messages)" and "rev messages ! i = (threshold, message)"
    by (auto simp: find_Some_iff)
  then have "(threshold, message) \<in> set (rev messages)"
    by (metis nth_mem)
  then show ?thesis
    by (auto simp: messages_def)
qed

lemma tick_progressMessage:
  "progressMessage s \<noteq> ''Complete!'' \<Longrightarrow> progressMessage (tick j s) \<noteq> ''Complete!''"
  by (auto simp: tick_def Let_def split: option.splits prod.splits dest: messages_not_complete)

lemma ticks_progressMessage:
  "progressMessage s \<noteq> ''Complete!'' \<Longrightarrow> progressMessage (ticks js s) \<noteq> ''Complete!''"
  by (induction js arbitrary: s) (simp_all add: ticks_def tick_progressMessage)

text \<open>The two ways a run ends.\<close>

lemma generateAdVariations_early:
  assumes "import_reply env = Some err \<or>
           import_reply env = None \<and>
             (enhancePrompt (credential env) (chat_reply env) d = Inl err \<or>
              enhancePrompt (credential env) (chat_reply env) d = Inr e \<and>
                fileToDataUrl f = Inl err)"
  shows "\<not> isGenerating (generateAdVariations env d f s)"
    and "generationError (generateAdVariations env d f s)
           = Some (case err of Error x \<Rightarrow> x | NonError \<Rightarrow> ''Failed to generate ad variations'')"
    and "timeouts (generateAdVariations env d f s) = timeouts s"
    and "generatedAds (generateAdVariations env d f s) = generatedAds s"
    and "progressValue (generateAdVariations env d f s) \<le> 95"
    and "progressMessage (generateAdVariations env d f s) \<noteq> ''Complete!''"
  using assms
  by (auto simp: generateAdVariations_def run_failed_def startProgressAnimation_def Let_def
      ticks_frame ticks_progressValue ticks_progressMessage)

lemma generateAdVariations_late:
  assumes "import_reply env = None"
    and "enhancePrompt (credential env) (chat_reply env) d = Inr e"
    and "fileToDataUrl f = Inr u"
  shows "generatedAds (generateAdVariations env d f s)
           = (case batch env (basePrompt (resolve_config (config_reply env 0) e)) u 0
                    (adTypes (resolve_config (config_reply env 0) e)) [] of
                Inr ads \<Rightarrow> ads
              | Inl apiError \<Rightarrow> fallbackAds)"
    and "generationError (generateAdVariations env d f s)
           = (case batch env (basePrompt (resolve_config (config_reply env 0) e)) u 0
                    (adTypes (resolve_config (config_reply env 0) e)) [] of
                Inr ads \<Rightarrow> None
              | Inl apiError \<Rightarrow>
                  Some (case apiError of Error message \<Rightarrow> message
                        | NonError \<Rightarrow> ''Failed to generate images with OpenAI API''))"
    and "progressValue (generateAdVariations env d f s) = 100"
    and "progressMessage (generateAdVariations env d f s) = ''Complete!''"
    and "isGenerating (generateAdVariations env d f s)"
    and "timeouts (generateAdVariations env d f s) = timeouts s @ [(500, ClearGenerating)]"
  using assms
  by (simp_all add: generateAdVariations_def batch_failed_def startProgressAnimation_def Let_def
      ticks_frame split: sum.splits)

text \<open>
  C4, as the code has it. A run that gets past the loading of the service module, the
  prompt enhancement and the reading of the image sets the progress to 100 with the
  message "Complete!" when the batch stage is over, whether the batch succeeded or failed,
  leaves the loading flag set and schedules its clearing 500 milliseconds later. A run
  that fails before the batch (the module does not load, no credential, an unreadable
  image) records the error and clears the loading flag at once; it never sets the
  progress to 100 or the message to "Complete!", and schedules nothing. In every case the
  loading flag is clear once the pending timeouts have run, whatever the intervals have
  ticked until then.
\<close>

theorem generateAdVariations_completion:
  "(import_reply env = None \<and> enhancePrompt (credential env) (chat_reply env) d = Inr e \<and>
    fileToDataUrl f = Inr u \<longrightarrow>
      progressValue (generateAdVariations env d f s) = 100 \<and>
      progressMessage (generateAdVariations env d f s) = ''Complete!'' \<and>
      isGenerating (generateAdVariations env d f s) \<and>
      timeouts (generateAdVariations env d f s) = timeouts s @ [(500, ClearGenerating)]) \<and>
   (import_reply env = Some err \<or>
    import_reply env = None \<and>
      (enhancePrompt (credential env) (chat_reply env) d = Inl err \<or>
       enhancePrompt (credential env) (chat_reply env) d = Inr e \<and> fileToDataUrl f = Inl err) \<longrightarrow>
      \<not> isGenerating (generateAdVariations env d f s) \<and>
      generationError (generateAdVariations env d f s)
        = Some (case err of Error x \<Rightarrow> x | NonError \<Rightarrow> ''Failed to generate ad variations'') \<and>
      progressValue (generateAdVariations env d f s) \<le> 95 \<and>
      progressMessage (generateAdVariations env d f s) \<noteq> ''Complete!'' \<and>
      timeouts (generateAdVariations env d f s) = timeouts s \<and>
      generatedAds (generateAdVariations env d f s) = generatedAds s) \<and>
   (\<forall>js. \<not> isGenerating (run_timeouts (ticks js (generateAdVariations env d f s))) \<and>
         timeouts (run_timeouts (ticks js (generateAdVariations env d f s))) = [])"
proof (intro conjI allI)
  show "import_reply env = None \<and> enhancePrompt (credential env) (chat_reply env) d = Inr e \<and>
    fileToDataUrl f = Inr u \<longrightarrow>
      progressValue (generateAdVariations env d f s) = 100 \<and>
      progressMessage (generateAdVariations env d f s) = ''Complete!'' \<and>
      isGenerating (generateAdVariations env d f s) \<and>
      timeouts (generateAdVariations env d f s) = timeouts s @ [(500, ClearGenerating)]"
    by (simp add: generateAdVariations_late)
next
  show "import_reply env = Some err \<or>
    import_reply env = None \<and>
      (enhancePrompt (credential env) (chat_reply env) d = Inl err \<or>
       enhancePrompt (credential env) (chat_reply env) d = Inr e \<and> fileToDataUrl f = Inl err) \<longrightarrow>
      \<not> isGenerating (generateAdVariations env d f s) \<and>
      generationError (generateAdVariations env d f s)
        = Some (case err of Error x \<Rightarrow> x | NonError \<Rightarrow> ''Failed to generate ad variations'') \<and>
      progressValue (generateAdVariations env d f s) \<le> 95 \<and>
      progressMessage (generateAdVariations env d f s) \<noteq> ''Complete!'' \<and>
      timeouts (generateAdVariations env d f s) = timeouts s \<and>
      generatedAds (generateAdVariations env d f s) = generatedAds s"
    using generateAdVariations_early [of env err d e f s] by blast
next
  fix js
  have "isGenerating (generateAdVariations env d f s) \<longrightarrow>
        timeouts (generateAdVariations env d f s) \<noteq> []"
  proof (cases "import_reply env")
    case (Some x)
    then show ?thesis
      using generateAdVariations_early(1) [of env x d e f s] by simp
  next
    case None
    show ?thesis
    proof (cases "enhancePrompt (credential env) (chat_reply env) d")
      case (Inl x)
      with None show ?thesis
        using generateAdVariations_early(1) [of env x d e f s] by simp
    next
      case (Inr e')
      show ?thesis
      proof (cases "fileToDataUrl f")
        case (Inl x)
        with None Inr show ?thesis
          using generateAdVariations_early(1) [of env x d e' f s] by simp
      next
        case (Inr u')
        with None \<open>enhancePrompt (credential env) (chat_reply env) d = Inr e'\<close> show ?thesis
          by (simp add: generateAdVariations_late)
      qed
    qed
  qed
  then show "\<not> isGenerating (run_timeouts (ticks js (generateAdVariations env d f s)))"
    by (simp add: run_timeouts_clears ticks_frame)
next
  fix js
  show "timeouts (run_timeouts (ticks js (generateAdVariations env d f s))) = []"
    by (rule run_timeouts_empties)
qed

lemma import_env_400: "import_reply env_400 = None"
  by (simp add: env_400_def env_ok_def)

lemma enhance_env_400:
  "enhancePrompt (credential env_400) (chat_reply env_400) ''Blue ceramic mug'' = Inr ''A glossy blue mug.''"
  by (simp add: env_400_def env_ok_def enhancePrompt_def key_test completion_content_chat_ok)

theorem generateAdVariations_completion_witness:
  "progressValue (generateAdVariations env_400 ''Blue ceramic mug''
       (Readable ''data:image/png;base64,AAAA'') session_start) = 100 \<and>
   progressMessage (generateAdVariations env_400 ''Blue ceramic mug''
       (Readable ''data:image/png;base64,AAAA'') session_start) = ''Complete!'' \<and>
   isGenerating (generateAdVariations env_400 ''Blue ceramic mug''
       (Readable ''data:image/png;base64,AAAA'') session_start) \<and>
   timeouts (generateAdVariations env_400 ''Blue ceramic mug''
       (Readable ''data:image/png;base64,AAAA'') session_start) = [(500, ClearGenerating)] \<and>
   \<not> isGenerating (run_timeouts (ticks [0, 0] (generateAdVariations env_400 ''Blue ceramic mug''
       (Readable ''data:image/png;base64,AAAA'') session_start))) \<and>
   progressValue (generateAdVariations env_busy ''Blue ceramic mug''
       (Readable ''data:image/png;base64,AAAA'') session_start) = 100 \<and>
   progressMessage (generateAdVariations env_busy ''Blue ceramic mug''
       (Readable ''data:image/png;base64,AAAA'') session_start) = ''Complete!'' \<and>
   \<not> isGenerating (run_timeouts (ticks [0, 0, 0] (generateAdVariations env_busy ''Blue ceramic mug''
       (Readable ''data:image/png;base64,AAAA'') session_start))) \<and>
   \<not> isGenerating (generateAdVariations env_busy ''Blue ceramic mug'' Unreadable session_start) \<and>
   generationError (generateAdVariations env_busy ''Blue ceramic mug'' Unreadable session_start)
     = Some ''Failed to generate ad variations'' \<and>
   generationError (generateAdVariations env_nokey ''Blue ceramic mug''
       (Readable ''data:image/png;base64,AAAA'') session_start)
     = Some ''OpenAI API key is not configured'' \<and>
   generationError (generateAdVariations env_unloaded ''Blue ceramic mug''
       (Readable ''data:image/png;base64,AAAA'') session_start)
     = Some ''Failed to fetch dynamically imported module'' \<and>
   \<not> isGenerating (generateAdVariations env_unloaded ''Blue ceramic mug''
       (Readable ''data:image/png;base64,AAAA'') session_start)"
proof -
  have i_busy: "import_reply env_busy = None"
    by (simp add: env_busy_def env_ok_def)
  have e_busy: "enhancePrompt (credential env_busy) (chat_reply env_busy) ''Blue ceramic mug'' = Inr ''A glossy blue mug.''"
    by (simp add: env_busy_def env_ok_def enhancePrompt_def key_test completion_content_chat_ok)
  have i_nokey: "import_reply env_nokey = None"
    by (simp add: env_nokey_def env_ok_def)
  have e_nokey: "enhancePrompt (credential env_nokey) (chat_reply env_nokey) ''Blue ceramic mug''
      = Inl (Error ''OpenAI API key is not configured'')"
    by (simp add: env_nokey_def env_ok_def enhancePrompt_def key_present_def)
  have i_unloaded:
    "import_reply env_unloaded = Some (Error ''Failed to fetch dynamically imported module'')"
    by (simp add: env_unloaded_def env_ok_def)
  have t0: "timeouts session_start = []"
    by (simp add: session_start_def)
  have a: "progressValue (generateAdVariations env_400 ''Blue ceramic mug''
       (Readable ''data:image/png;base64,AAAA'') session_start) = 100 \<and>
   progressMessage (generateAdVariations env_400 ''Blue ceramic mug''
       (Readable ''data:image/png;base64,AAAA'') session_start) = ''Complete!'' \<and>
   isGenerating (generateAdVariations env_400 ''Blue ceramic mug''
       (Readable ''data:image/png;base64,AAAA'') session_start) \<and>
   timeouts (generateAdVariations env_400 ''Blue ceramic mug''
       (Readable ''data:image/png;base64,AAAA'') session_start) = [(500, ClearGenerating)] \<and>
   \<not> isGenerating (run_timeouts (ticks [0, 0] (generateAdVariations env_400 ''Blue ceramic mug''
       (Readable ''data:image/png;base64,AAAA'') session_start)))"
    using generateAdVariations_completion [of env_400 "''Blue ceramic mug''" "''A glossy blue mug.''"
        "Readable ''data:image/png;base64,AAAA''" "''data:image/png;base64,AAAA''" session_start NonError]
      import_env_400 enhance_env_400 t0
    by simp
  have b: "\<not> isGenerating (generateAdVariations env_busy ''Blue ceramic mug'' Unreadable session_start) \<and>
   generationError (generateAdVariations env_busy ''Blue ceramic mug'' Unreadable session_start)
     = Some ''Failed to generate ad variations''"
    using generateAdVariations_completion [of env_busy "''Blue ceramic mug''" "''A glossy blue mug.''"
        Unreadable "[]" session_start NonError] i_busy e_busy
    by simp
  have c: "generationError (generateAdVariations env_nokey ''Blue ceramic mug''
       (Readable ''data:image/png;base64,AAAA'') session_start)
     = Some ''OpenAI API key is not configured''"
    using generateAdVariations_completion [of env_nokey "''Blue ceramic mug''" "[]"
        "Readable ''data:image/png;base64,AAAA''" "[]" session_start
        "Error ''OpenAI API key is not configured''"] i_nokey e_nokey
    by simp
  have d: "progressValue (generateAdVariations env_busy ''Blue ceramic mug''
       (Readable ''data:image/png;base64,AAAA'') session_start) = 100 \<and>
   progressMessage (generateAdVariations env_busy ''Blue ceramic mug''
       (Readable ''data:image/png;base64,AAAA'') session_start) = ''Complete!'' \<and>
   \<not> isGenerating (run_timeouts (ticks [0, 0, 0] (generateAdVariations env_busy ''Blue ceramic mug''
       (Readable ''data:image/png;base64,AAAA'') session_start)))"
    using generateAdVariations_completion [of env_busy "''Blue ceramic mug''" "''A glossy blue mug.''"
        "Readable ''data:image/png;base64,AAAA''" "''data:image/png;base64,AAAA''" session_start NonError]
      i_busy e_busy
    by simp
  have e: "generationError (generateAdVariations env_unloaded ''Blue ceramic mug''
       (Readable ''data:image/png;base64,AAAA'') session_start)
     = Some ''Failed to fetch dynamically imported module'' \<and>
   \<not> isGenerating (generateAdVariations env_unloaded ''Blue ceramic mug''
       (Readable ''data:image/png;base64,AAAA'') session_start)"
    using generateAdVariations_completion [of env_unloaded "''Blue ceramic mug''" "[]"
        "Readable ''data:image/png;base64,AAAA''" "[]" session_start
        "Error ''Failed to fetch dynamically imported module''"] i_unloaded
    by simp
  from a b c d e show ?thesis by simp
qed

text \<open>The claim as the spec words it fails for a run without a credential: the progress
  is not brought to 100, the message is not the completion message, and no clearing of
  the loading flag is scheduled; the flag is cleared at once.\<close>

theorem generateAdVariations_missing_credential_counterexample:
  "generationError (generateAdVariations env_nokey ''Blue ceramic mug''
       (Readable ''data:image/png;base64,AAAA'') session_start)
     = Some ''OpenAI API key is not configured'' \<and>
   progressValue (generateAdVariations env_nokey ''Blue ceramic mug''
       (Readable ''data:image/png;base64,AAAA'') session_start) \<noteq> 100 \<and>
   progressMessage (generateAdVariations env_nokey ''Blue ceramic mug''
       (Readable ''data:image/png;base64,AAAA'') session_start) \<noteq> ''Complete!'' \<and>
   timeouts (generateAdVariations env_nokey ''Blue ceramic mug''
       (Readable ''data:image/png;base64,AAAA'') session_start) = [] \<and>
   \<not> isGenerating (generateAdVariations env_nokey ''Blue ceramic mug''
       (Readable ''data:image/png;base64,AAAA'') session_start)"
proof -
  have "import_reply env_nokey = None \<and>
        enhancePrompt (credential env_nokey) (chat_reply env_nokey) ''Blue ceramic mug''
          = Inl (Error ''OpenAI API key is not configured'')"
    by (simp add: env_nokey_def env_ok_def enhancePrompt_def key_present_def)
  then have early: "import_reply env_nokey = Some (Error ''OpenAI API key is not configured'') \<or>
      import_reply env_nokey = None \<and>
        (enhancePrompt (credential env_nokey) (chat_reply env_nokey) ''Blue ceramic mug''
           = Inl (Error ''OpenAI API key is not configured'') \<or>
         enhancePrompt (credential env_nokey) (chat_reply env_nokey) ''Blue ceramic mug'' = Inr [] \<and>
           fileToDataUrl (Readable ''data:image/png;base64,AAAA'')
             = Inl (Error ''OpenAI API key is not configured''))"
    by simp
  have "progressValue (generateAdVariations env_nokey ''Blue ceramic mug''
          (Readable ''data:image/png;base64,AAAA'') session_start) \<le> 95"
    by (rule generateAdVariations_early(5) [OF early])
  then have "progressValue (generateAdVariations env_nokey ''Blue ceramic mug''
       (Readable ''data:image/png;base64,AAAA'') session_start) \<noteq> 100"
    by simp
  with generateAdVariations_early(1,2,3,6) [OF early, of session_start] show ?thesis
    by (simp add: session_start_def)
qed

text \<open>A tick during the run shows in the progress of a run that fails early: the first
  value of the animation is 4.75.\<close>

lemma animation_during_run:
  "progressValue (generateAdVariations env_slow_chat ''Blue ceramic mug'' Unreadable session_start)
     = 19 / 4 \<and>
   \<not> isGenerating (generateAdVariations env_slow_chat ''Blue ceramic mug'' Unreadable session_start)"
  by (simp add: generateAdVariations_def env_slow_chat_def env_ok_def session_start_def Let_def
      startProgressAnimation_def enhancePrompt_def key_test completion_content_chat_ok
      run_failed_def ticks_def tick_def maxProgress_def messages_def)

text \<open>Nothing cancels the interval that the run has started, so it goes on ticking after
  the run has set the progress to 100: in the 500 milliseconds before the loading flag
  clears, a run that was over before the animation reached 95 has its progress and its
  message written again. Here the run is over at once and the interval ticks twice.\<close>

lemma completion_overwritten:
  "progressValue (ticks [0, 0] (generateAdVariations env_ok ''Blue ceramic mug''
       (Readable ''data:image/png;base64,AAAA'') session_start)) < 100 \<and>
   progressMessage (ticks [0, 0] (generateAdVariations env_ok ''Blue ceramic mug''
       (Readable ''data:image/png;base64,AAAA'') session_start)) = ''Uploading your image'' \<and>
   isGenerating (ticks [0, 0] (generateAdVariations env_ok ''Blue ceramic mug''
       (Readable ''data:image/png;base64,AAAA'') session_start))"
proof -
  have "intervals (generateAdVariations env_ok ''Blue ceramic mug''
          (Readable ''data:image/png;base64,AAAA'') session_start) = [0]"
    by (simp add: generateAdVariations_def env_ok_def session_start_def Let_def ticks_def
        startProgressAnimation_def enhancePrompt_def key_test completion_content_chat_ok
        batch_failed_def split: sum.splits)
  moreover have "isGenerating (generateAdVariations env_ok ''Blue ceramic mug''
          (Readable ''data:image/png;base64,AAAA'') session_start)"
    by (rule generateAdVariations_late(5))
      (simp_all add: env_ok_def enhancePrompt_def key_test completion_content_chat_ok)
  ultimately show ?thesis
    by (simp add: ticks_def tick_def Let_def maxProgress_def messages_def)
qed

text \<open>The handlers of the gallery read nothing that a tick writes and write nothing that a
  tick reads or writes, so a tick during one of them can as well come before or after it:
  the handlers are modelled without the ticks.\<close>

lemma tick_generatedAds_update:
  "tick j (s\<lparr>generatedAds := ads\<rparr>) = (tick j s)\<lparr>generatedAds := ads\<rparr>"
  by (simp add: tick_def Let_def split: option.splits prod.splits)

lemma handleRegenerateAd_reads:
  assumes "generatedAds s' = generatedAds s" and "productImage s' = productImage s"
    and "productDescription s' = productDescription s"
  shows "generatedAds (handleRegenerateAd env i s') = generatedAds (handleRegenerateAd env i s)"
  using assms
  by (simp add: handleRegenerateAd_def Let_def split: option.splits sum.splits list.splits)

lemma handleRegenerateAd_writes:
  "handleRegenerateAd env i s = s\<lparr>generatedAds := generatedAds (handleRegenerateAd env i s)\<rparr>"
  using handleRegenerateAd_result [of env i s] by auto

lemma tick_handleRateAd: "tick j (handleRateAd i r s) = handleRateAd i r (tick j s)"
  by (simp add: handleRateAd_def tick_generatedAds_update tick_frame)

lemma tick_handleRegenerateAd:
  "tick j (handleRegenerateAd env i s) = handleRegenerateAd env i (tick j s)"
proof -
  have "tick j (handleRegenerateAd env i s)
          = (tick j s)\<lparr>generatedAds := generatedAds (handleRegenerateAd env i s)\<rparr>"
    by (subst handleRegenerateAd_writes) (rule tick_generatedAds_update)
  also have "generatedAds (handleRegenerateAd env i s)
          = generatedAds (handleRegenerateAd env i (tick j s))"
    by (rule handleRegenerateAd_reads [symmetric]) (simp_all add: tick_frame)
  also have "(tick j s)\<lparr>generatedAds := generatedAds (handleRegenerateAd env i (tick j s))\<rparr>
          = handleRegenerateAd env i (tick j s)"
    by (rule handleRegenerateAd_writes [symmetric])
  finally show ?thesis .
qed

section \<open>A refused image\<close>

lemma show_nat_400: "show_nat 400 = ''400''"
  by (simp add: show_nat.simps digit_def)

lemma enhancePrompt_Inr_key: "enhancePrompt k c d = Inr e \<Longrightarrow> key_present k"
  by (simp add: enhancePrompt_def split: if_splits)

lemma api_error_invalid_image:
  "api_error 400 (Some invalid_image_body)
     = Structured (JStr ''invalid image'') 400 invalid_image_body"
  by (simp add: api_error_def invalid_image_body_def member_def opt_member_def get_def)

lemma request_invalid_image:
  "snd (request (Responds 400 (Some invalid_image_body)) p u sz)
     = Inl (Structured (JStr ''invalid image'') 400 invalid_image_body)"
  by (simp add: request_def response_ok_def api_error_invalid_image)

lemma generateImages_invalid_image:
  "key_present k \<Longrightarrow> reqs 0 = Responds 400 (Some invalid_image_body) \<Longrightarrow>
   snd (generateImages k reqs p u (Suc 0) sz) = Inl (Error ''invalid image (Status: 400)'')"
  by (simp add: generateImages_single request_invalid_image show_nat_400)

lemma batch_append:
  "batch env b u k (xs @ ys) ads =
     (case batch env b u k xs ads of
        Inl e \<Rightarrow> Inl e
      | Inr ads' \<Rightarrow> batch env b u (k + length xs) ys ads')"
  by (induction xs arbitrary: k ads) (auto split: sum.splits list.splits)

lemma batch_invalid_image:
  assumes "key_present (credential env)"
    and "batch env b u 0 before [] = Inr ads"
    and "entry \<noteq> JNull"
    and "edit_reply env (length before) 0 = Responds 400 (Some invalid_image_body)"
  shows "batch env b u 0 (before @ entry # after) [] = Inl (Error ''invalid image (Status: 400)'')"
  using assms
  by (simp add: batch_append member_not_null generateImages_invalid_image)

lemma generateAdVariations_invalid_image:
  assumes "import_reply env = None"
    and "enhancePrompt (credential env) (chat_reply env) d = Inr e"
    and "fileToDataUrl f = Inr u"
    and "adTypes (resolve_config (config_reply env 0) e) = before @ entry # after"
    and "batch env (basePrompt (resolve_config (config_reply env 0) e)) u 0 before [] = Inr ads"
    and "entry \<noteq> JNull"
    and "edit_reply env (length before) 0 = Responds 400 (Some invalid_image_body)"
  shows "generationError (generateAdVariations env d f s) = Some ''invalid image (Status: 400)''"
    and "generatedAds (generateAdVariations env d f s) = fallbackAds"
proof -
  from assms(2) have "key_present (credential env)"
    by (rule enhancePrompt_Inr_key)
  from batch_invalid_image [OF this assms(5) assms(6) assms(7), of after]
  have "batch env (basePrompt (resolve_config (config_reply env 0) e)) u 0
          (adTypes (resolve_config (config_reply env 0) e)) []
        = Inl (Error ''invalid image (Status: 400)'')"
    by (simp add: assms(4))
  then show "generationError (generateAdVariations env d f s) = Some ''invalid image (Status: 400)''"
    and "generatedAds (generateAdVariations env d f s) = fallbackAds"
    by (simp_all add: generateAdVariations_late [OF assms(1) assms(2) assms(3)])
qed

text \<open>
  C2, as the code has it. When a request of the batch is answered with HTTP 400 and the body
  \<open>{"error":{"message":"invalid image"}}\<close> (the run got past the loading of the service
  module, the enhancement and the reading of the image, the earlier ad types succeeded,
  and the entry at hand is not \<open>null\<close>),
  generationError is "invalid image (Status: 400)" and the batch is the three fixed
  placeholder ads with their stock image references.
\<close>

theorem invalid_image_surfaces:
  assumes "import_reply env = None"
    and "enhancePrompt (credential env) (chat_reply env) d = Inr e"
    and "fileToDataUrl f = Inr u"
    and "adTypes (resolve_config (config_reply env 0) e) = before @ entry # after"
    and "batch env (basePrompt (resolve_config (config_reply env 0) e)) u 0 before [] = Inr ads"
    and "entry \<noteq> JNull"
    and "edit_reply env (length before) 0 = Responds 400 (Some invalid_image_body)"
  shows "generationError (generateAdVariations env d f s) = Some ''invalid image (Status: 400)'' \<and>
         generatedAds (generateAdVariations env d f s) = fallbackAds \<and>
         map ad_id fallbackAds = [''1'', ''2'', ''3''] \<and>
         map adType fallbackAds
           = [Some ''Creative Concept Ad'', Some ''Benefit Highlight Ad'', Some ''Ecommerce-Style Ad''] \<and>
         map imageUrl fallbackAds
           = [JStr ''https://images.unsplash.com/photo-1542744173-8e7e53415bb0?w=800&q=80'',
              JStr ''https://images.unsplash.com/photo-1557804506-669a67965ba0?w=800&q=80'',
              JStr ''https://images.unsplash.com/photo-1661956602926-db6b25f75947?w=800&q=80'']"
  using generateAdVariations_invalid_image [OF assms]
  by (simp add: fallbackAds_def)

lemma types_env_400:
  "adTypes (resolve_config (config_reply env_400 0) ''A glossy blue mug.'')
     = [] @ adTypeSpec ''Creative Concept Ad'' creative_prompt #
         [adTypeSpec ''Benefit Highlight Ad'' benefit_prompt,
          adTypeSpec ''Ecommerce-Style Ad'' ecommerce_prompt]"
  by (simp add: env_400_def env_ok_def resolve_unreachable default_adTypes_def)

theorem invalid_image_surfaces_witness:
  "generationError (generateAdVariations env_400 ''Blue ceramic mug''
       (Readable ''data:image/png;base64,AAAA'') session_start)
     = Some ''invalid image (Status: 400)'' \<and>
   generatedAds (generateAdVariations env_400 ''Blue ceramic mug''
       (Readable ''data:image/png;base64,AAAA'') session_start) = fallbackAds"
  using invalid_image_surfaces [OF import_env_400 enhance_env_400, of "Readable ''data:image/png;base64,AAAA''"
      "''data:image/png;base64,AAAA''" "[]" "adTypeSpec ''Creative Concept Ad'' creative_prompt"
      "[adTypeSpec ''Benefit Highlight Ad'' benefit_prompt,
          adTypeSpec ''Ecommerce-Style Ad'' ecommerce_prompt]" "[]" session_start]
    types_env_400
  by (simp add: adTypeSpec_def env_400_def)

text \<open>The claim as the spec words it fails on the message: the generator appends the
  status to it.\<close>

theorem invalid_image_message_counterexample:
  "generationError (generateAdVariations env_400 ''Blue ceramic mug''
       (Readable ''data:image/png;base64,AAAA'') session_start)
     = Some ''invalid image (Status: 400)'' \<and>
   generationError (generateAdVariations env_400 ''Blue ceramic mug''
       (Readable ''data:image/png;base64,AAAA'') session_start)
     \<noteq> Some ''invalid image''"
proof -
  have "generationError (generateAdVariations env_400 ''Blue ceramic mug''
       (Readable ''data:image/png;base64,AAAA'') session_start)
     = Some ''invalid image (Status: 400)''"
    using generateAdVariations_invalid_image(1) [OF import_env_400 enhance_env_400, of "Readable ''data:image/png;base64,AAAA''"
      "''data:image/png;base64,AAAA''" "[]" "adTypeSpec ''Creative Concept Ad'' creative_prompt"
      "[adTypeSpec ''Benefit Highlight Ad'' benefit_prompt,
          adTypeSpec ''Ecommerce-Style Ad'' ecommerce_prompt]" "[]" session_start]
      types_env_400
    by (simp add: adTypeSpec_def env_400_def)
  then show ?thesis by simp
qed

section \<open>Identifiers\<close>

lemma digit_inj: "a < 10 \<Longrightarrow> b < 10 \<Longrightarrow> digit a = digit b \<Longrightarrow> a = b"
proof -
  assume "a < 10" "b < 10" "digit a = digit b"
  moreover have "distinct ''0123456789''" by simp
  ultimately show "a = b"
    unfolding digit_def by (simp add: nth_eq_iff_index_eq)
qed

lemma digit_not_dash: "d < 10 \<Longrightarrow> digit d \<noteq> CHR ''-''"
proof -
  assume "d < 10"
  then have "digit d \<in> set ''0123456789''"
    unfolding digit_def by (simp only: nth_mem length_Cons list.size) 
  then show ?thesis by auto
qed

lemma show_nat_not_Nil: "show_nat n \<noteq> []"
  by (subst show_nat.simps) simp

lemma show_nat_no_dash: "CHR ''-'' \<notin> set (show_nat n)"
proof (induction n rule: show_nat.induct)
  case (1 n)
  show ?case
  proof (cases "n < 10")
    case True
    then show ?thesis using digit_not_dash [of n] by (subst show_nat.simps) auto
  next
    case False
    with 1 have "CHR ''-'' \<notin> set (show_nat (n div 10))" by simp
    moreover have "digit (n mod 10) \<noteq> CHR ''-''" by (rule digit_not_dash) simp
    ultimately show ?thesis using False by (subst show_nat.simps) auto
  qed
qed

lemma show_nat_inj: "show_nat a = show_nat b \<Longrightarrow> a = b"
proof (induction a arbitrary: b rule: show_nat.induct)
  case (1 a)
  show ?case
  proof (cases "a < 10")
    case True
    show ?thesis
    proof (cases "b < 10")
      case b: True
      from "1.prems" True b have "digit a = digit b"
        by (simp add: show_nat_digit)
      with True b show ?thesis using digit_inj [of a b] by simp
    next
      case False
      then have "show_nat b = show_nat (b div 10) @ [digit (b mod 10)]"
        by (subst show_nat.simps) simp
      with "1.prems" True show ?thesis
        by (simp add: show_nat_digit show_nat_not_Nil show_nat_not_Nil [THEN not_sym])
    qed
  next
    case False
    then have a: "show_nat a = show_nat (a div 10) @ [digit (a mod 10)]"
      by (subst show_nat.simps) simp
    show ?thesis
    proof (cases "b < 10")
      case True
      with "1.prems" a show ?thesis
        by (simp add: show_nat_digit show_nat_not_Nil show_nat_not_Nil [THEN not_sym])
    next
      case b: False
      then have "show_nat b = show_nat (b div 10) @ [digit (b mod 10)]"
        by (subst show_nat.simps) simp
      with "1.prems" a have "show_nat (a div 10) = show_nat (b div 10)"
        and "digit (a mod 10) = digit (b mod 10)"
        by simp_all
      with "1.IH" [OF False] have "a div 10 = b div 10" and "a mod 10 = b mod 10"
        by (auto intro: digit_inj)
      then show ?thesis by (metis div_mult_mod_eq)
    qed
  qed
qed

lemma append_sep_eq:
  assumes "xs @ c # ys = xs' @ c # ys'" and "c \<notin> set xs" and "c \<notin> set xs'"
  shows "xs = xs' \<and> ys = ys'"
proof -
  have "takeWhile (\<lambda>x. x \<noteq> c) (xs @ c # ys) = xs"
    using assms(2) by (induction xs) auto
  moreover have "takeWhile (\<lambda>x. x \<noteq> c) (xs' @ c # ys') = xs'"
    using assms(3) by (induction xs') auto
  ultimately have "xs = xs'" using assms(1) by simp
  with assms(1) show ?thesis by simp
qed

lemma generateImages_single_result:
  "snd (generateImages k reqs p u (Suc 0) sz) = Inr urls \<Longrightarrow> \<exists>url. urls = [url]"
proof (cases "key_present k")
  case True
  assume "snd (generateImages k reqs p u (Suc 0) sz) = Inr urls"
  with True show ?thesis
    by (auto simp: generateImages_single split: sum.splits)
next
  case False
  assume "snd (generateImages k reqs p u (Suc 0) sz) = Inr urls"
  with False show ?thesis by (simp add: generateImages_def)
qed

lemma batch_step:
  assumes "batch env b u k (t # rest) acc = Inr ads"
  shows "\<exists>label url. ad_label t = Inr label \<and>
           batch env b u (Suc k) rest
             (acc @ [\<lparr>ad_id = new_id (lowercase env) (clock env k) label, imageUrl = url,
                       rating = None, adType = Some label, isRegenerating = None\<rparr>]) = Inr ads"
proof -
  from assms obtain logged where l: "member (Some t) ''type'' = Inr logged"
    by (auto split: sum.splits)
  from assms l obtain instructions where m: "member (Some t) ''prompt'' = Inr instructions"
    by (auto split: sum.splits)
  from assms l m obtain urls where g: "snd (generateImages (credential env) (edit_reply env k)
        (b @ toString_val instructions) u (Suc 0) ''1024x1024'') = Inr urls"
    by (auto split: sum.splits)
  then obtain url where u: "urls = [url]"
    using generateImages_single_result by blast
  from assms l m g u show ?thesis
    by (auto split: sum.splits)
qed

lemma batch_ids:
  "batch env b u k ts acc = Inr ads \<Longrightarrow>
   map ad_id ads = map ad_id acc @
     map (\<lambda>(j, t). ''gen-'' @ show_nat (clock env j) @ ''-'' @ slug_of (lowercase env) t)
       (enumerate k ts)"
proof (induction ts arbitrary: k acc)
  case Nil
  then show ?case by simp
next
  case (Cons t rest)
  from batch_step [OF Cons.prems] obtain label url where
    l: "ad_label t = Inr label" and
    r: "batch env b u (Suc k) rest
          (acc @ [\<lparr>ad_id = new_id (lowercase env) (clock env k) label, imageUrl = url,
                    rating = None, adType = Some label, isRegenerating = None\<rparr>]) = Inr ads"
    by blast
  from Cons.IH [OF r] l show ?case
    by (simp add: slug_of_def new_id_def)
qed

lemma id_text_inj: "inj (\<lambda>(time, slug). ''gen-'' @ show_nat time @ ''-'' @ slug)"
proof (rule injI)
  fix x y :: "nat \<times> string"
  obtain t a where x: "x = (t, a)" by (cases x)
  obtain t' a' where y: "y = (t', a')" by (cases y)
  assume "(case x of (time, slug) \<Rightarrow> ''gen-'' @ show_nat time @ ''-'' @ slug)
        = (case y of (time, slug) \<Rightarrow> ''gen-'' @ show_nat time @ ''-'' @ slug)"
  then have "show_nat t @ CHR ''-'' # a = show_nat t' @ CHR ''-'' # a'"
    by (simp add: x y)
  then have "show_nat t = show_nat t' \<and> a = a'"
    by (rule append_sep_eq) (rule show_nat_no_dash)+
  then show "x = y" by (auto simp: x y dest: show_nat_inj)
qed

lemma batch_ids_distinct:
  assumes "batch env b u 0 ts [] = Inr ads"
  shows "distinct (map ad_id ads) =
         distinct (map (\<lambda>(j, t). (clock env j, slug_of (lowercase env) t)) (enumerate 0 ts))"
proof -
  let ?pairs = "map (\<lambda>(j, t). (clock env j, slug_of (lowercase env) t)) (enumerate 0 ts)"
  let ?text = "\<lambda>(time, slug). ''gen-'' @ show_nat time @ ''-'' @ slug"
  have ids: "map ad_id ads = map ?text ?pairs"
    using batch_ids [OF assms] by (simp add: case_prod_unfold)
  have "inj_on ?text (set ?pairs)"
    using id_text_inj by (rule inj_on_subset) simp
  then have "distinct (map ?text ?pairs) = distinct ?pairs"
    by (simp only: distinct_map simp_thms)
  with ids show ?thesis by simp
qed

lemma ids_rate: "map ad_id (rate i r ads) = map ad_id ads"
  by (simp add: rate_def)

lemma ids_handleRegenerateAd:
  "map ad_id (generatedAds (handleRegenerateAd env i s)) = map ad_id (generatedAds s)"
  using handleRegenerateAd_result [of env i s] by (auto simp: ids_replace_image)

lemma ids_apply_operations:
  "map ad_id (generatedAds (apply_operations ops s)) = map ad_id (generatedAds s)"
  unfolding apply_operations_def
proof (induction ops arbitrary: s)
  case Nil
  then show ?case by simp
next
  case (Cons operation ops)
  show ?case
    by (cases operation) (simp_all add: Cons.IH handleRateAd_def ids_rate ids_handleRegenerateAd)
qed

lemma slug_of_adTypeSpec:
  "slug_of table (adTypeSpec label p) = replace_spaces (toLowerCase table label)"
  by (simp add: slug_of_def ad_label_def adTypeSpec_def get_def)

lemma ascii_default_labels:
  "ascii ''Creative Concept Ad''" "ascii ''Benefit Highlight Ad''" "ascii ''Ecommerce-Style Ad''"
  by code_simp+

lemma ascii_default_slugs:
  "replace_spaces (ascii_lowercase ''Creative Concept Ad'') = ''creative-concept-ad''"
  "replace_spaces (ascii_lowercase ''Benefit Highlight Ad'') = ''benefit-highlight-ad''"
  "replace_spaces (ascii_lowercase ''Ecommerce-Style Ad'') = ''ecommerce-style-ad''"
  by code_simp+

lemma default_slugs:
  "map (slug_of table) default_adTypes
     = [''creative-concept-ad'', ''benefit-highlight-ad'', ''ecommerce-style-ad'']"
  by (simp add: default_adTypes_def slug_of_adTypeSpec toLowerCase_def ascii_default_labels
      ascii_default_slugs)

lemma default_pairs_distinct:
  "distinct (map (\<lambda>(k, t). (c k, slug_of table t)) (enumerate 0 default_adTypes))"
proof -
  obtain t1 t2 t3 where d: "default_adTypes = [t1, t2, t3]"
    by (simp add: default_adTypes_def)
  have "slug_of table t1 = ''creative-concept-ad''"
    "slug_of table t2 = ''benefit-highlight-ad''"
    "slug_of table t3 = ''ecommerce-style-ad''"
    using default_slugs [of table] unfolding d by simp_all
  then show ?thesis by (simp add: d)
qed

lemma fallback_ids_distinct: "distinct (map ad_id fallbackAds)"
  by (simp add: fallbackAds_def)

text \<open>
  C9, as the code has it. For a run that reaches the batch: the fallback batch has unique
  ids; a batch assembled from the API has unique ids exactly when no two entries of the
  resolved ad types share both the clock reading and the slug of the label (the label in
  lower case, each run of white space a dash), which holds for the built-in ad types
  whatever the clock reads; and any sequence of rating and
  regeneration operations leaves the ids of the batch as they were, in order.
\<close>

theorem batch_ids_unique:
  assumes "import_reply env = None"
    and "enhancePrompt (credential env) (chat_reply env) d = Inr e"
    and "fileToDataUrl f = Inr u"
  shows
   "(\<forall>err. batch env (basePrompt (resolve_config (config_reply env 0) e)) u 0
             (adTypes (resolve_config (config_reply env 0) e)) [] = Inl err \<longrightarrow>
        generatedAds (generateAdVariations env d f s) = fallbackAds \<and>
        distinct (map ad_id (generatedAds (generateAdVariations env d f s)))) \<and>
    (\<forall>ads. batch env (basePrompt (resolve_config (config_reply env 0) e)) u 0
             (adTypes (resolve_config (config_reply env 0) e)) [] = Inr ads \<longrightarrow>
        generatedAds (generateAdVariations env d f s) = ads \<and>
        distinct (map ad_id (generatedAds (generateAdVariations env d f s))) =
        distinct (map (\<lambda>(k, t). (clock env k, slug_of (lowercase env) t))
                    (enumerate 0 (adTypes (resolve_config (config_reply env 0) e))))) \<and>
    (adTypes (resolve_config (config_reply env 0) e) = default_adTypes \<longrightarrow>
        distinct (map ad_id (generatedAds (generateAdVariations env d f s)))) \<and>
    (\<forall>ops. map ad_id (generatedAds (apply_operations ops (generateAdVariations env d f s)))
             = map ad_id (generatedAds (generateAdVariations env d f s)))"
proof (intro conjI allI impI)
  fix err
  assume "batch env (basePrompt (resolve_config (config_reply env 0) e)) u 0
             (adTypes (resolve_config (config_reply env 0) e)) [] = Inl err"
  then show "generatedAds (generateAdVariations env d f s) = fallbackAds"
    and "distinct (map ad_id (generatedAds (generateAdVariations env d f s)))"
    by (simp_all add: generateAdVariations_late [OF assms] fallback_ids_distinct)
next
  fix ads
  assume b: "batch env (basePrompt (resolve_config (config_reply env 0) e)) u 0
             (adTypes (resolve_config (config_reply env 0) e)) [] = Inr ads"
  then show ads: "generatedAds (generateAdVariations env d f s) = ads"
    by (simp add: generateAdVariations_late [OF assms])
  show "distinct (map ad_id (generatedAds (generateAdVariations env d f s))) =
        distinct (map (\<lambda>(k, t). (clock env k, slug_of (lowercase env) t))
                    (enumerate 0 (adTypes (resolve_config (config_reply env 0) e))))"
    unfolding ads by (rule batch_ids_distinct [OF b])
next
  assume dflt: "adTypes (resolve_config (config_reply env 0) e) = default_adTypes"
  show "distinct (map ad_id (generatedAds (generateAdVariations env d f s)))"
  proof (cases "batch env (basePrompt (resolve_config (config_reply env 0) e)) u 0
             (adTypes (resolve_config (config_reply env 0) e)) []")
    case (Inl err)
    then show ?thesis
      by (simp add: generateAdVariations_late [OF assms] fallback_ids_distinct)
  next
    case (Inr ads)
    then have "generatedAds (generateAdVariations env d f s) = ads"
      by (simp add: generateAdVariations_late [OF assms])
    moreover from Inr have "distinct (map ad_id ads)"
      using batch_ids_distinct [of env _ u "default_adTypes" ads]
        default_pairs_distinct [of "clock env" "lowercase env"]
      by (simp add: dflt)
    ultimately show ?thesis by simp
  qed
next
  fix ops
  show "map ad_id (generatedAds (apply_operations ops (generateAdVariations env d f s)))
             = map ad_id (generatedAds (generateAdVariations env d f s))"
    by (rule ids_apply_operations)
qed

lemma show_nat_1000: "show_nat 1000 = ''1000''"
  by (simp add: show_nat.simps digit_def)

lemma import_env_same_slug: "import_reply env_same_slug = None"
  by (simp add: env_same_slug_def env_ok_def)

lemma enhance_env_same_slug:
  "enhancePrompt (credential env_same_slug) (chat_reply env_same_slug) ''Blue ceramic mug''
     = Inr ''A glossy blue mug.''"
  by (simp add: env_same_slug_def env_ok_def enhancePrompt_def key_test completion_content_chat_ok)

lemma adTypes_env_same_slug:
  "adTypes (resolve_config (config_reply env_same_slug 0) e)
     = [adTypeSpec ''Summer Sale'' ''a'', adTypeSpec ''summer sale'' ''b'']"
  by (simp add: env_same_slug_def env_ok_def resolve_parsed response_ok_def config_same_slug_def
      get_def apply_adTypes_def)

lemma summer_sale_slugs:
  "replace_spaces (toLowerCase table ''Summer Sale'') = ''summer-sale''"
  "replace_spaces (toLowerCase table ''summer sale'') = ''summer-sale''"
proof -
  have "ascii ''Summer Sale''" and "ascii ''summer sale''"
    by code_simp+
  moreover have "replace_spaces (ascii_lowercase ''Summer Sale'') = ''summer-sale''"
    and "replace_spaces (ascii_lowercase ''summer sale'') = ''summer-sale''"
    by code_simp+
  ultimately show "replace_spaces (toLowerCase table ''Summer Sale'') = ''summer-sale''"
    and "replace_spaces (toLowerCase table ''summer sale'') = ''summer-sale''"
    by (simp_all add: toLowerCase_def)
qed

lemma batch_env_same_slug:
  "batch env_same_slug b u 0 [adTypeSpec ''Summer Sale'' ''a'', adTypeSpec ''summer sale'' ''b''] []
     = Inr [\<lparr>ad_id = ''gen-1000-summer-sale'', imageUrl = JStr ''https://cdn.example/new.png'',
              rating = None, adType = Some ''Summer Sale'', isRegenerating = None\<rparr>,
            \<lparr>ad_id = ''gen-1000-summer-sale'', imageUrl = JStr ''https://cdn.example/new.png'',
              rating = None, adType = Some ''summer sale'', isRegenerating = None\<rparr>]"
  by (simp add: env_same_slug_def env_ok_def adTypeSpec_def member_def get_def key_test
      generateImages_single request_edit_ok ad_label_def new_id_def show_nat_1000
      summer_sale_slugs)

text \<open>The claim as the spec words it fails for a remote configuration whose labels
  "Summer Sale" and "summer sale" have one slug, when both ads are built in the same
  millisecond.\<close>

theorem batch_ids_same_slug_counterexample:
  "map ad_id (generatedAds (generateAdVariations env_same_slug ''Blue ceramic mug''
       (Readable ''data:image/png;base64,AAAA'') session_start))
     = [''gen-1000-summer-sale'', ''gen-1000-summer-sale''] \<and>
   \<not> distinct (map ad_id (generatedAds (generateAdVariations env_same_slug ''Blue ceramic mug''
       (Readable ''data:image/png;base64,AAAA'') session_start)))"
proof -
  have "generatedAds (generateAdVariations env_same_slug ''Blue ceramic mug''
       (Readable ''data:image/png;base64,AAAA'') session_start)
     = [\<lparr>ad_id = ''gen-1000-summer-sale'', imageUrl = JStr ''https://cdn.example/new.png'',
              rating = None, adType = Some ''Summer Sale'', isRegenerating = None\<rparr>,
            \<lparr>ad_id = ''gen-1000-summer-sale'', imageUrl = JStr ''https://cdn.example/new.png'',
              rating = None, adType = Some ''summer sale'', isRegenerating = None\<rparr>]"
    unfolding generateAdVariations_late(1)
        [OF import_env_same_slug enhance_env_same_slug fileToDataUrl.simps(1)]
      adTypes_env_same_slug batch_env_same_slug
    by simp
  then show ?thesis by simp
qed

text \<open>The same with labels that differ in the case of an accented letter only.\<close>

lemma accent_slugs:
  "replace_spaces (toLowerCase latin1_lowercase (''CAF'' @ [CHR 0xC3, CHR 0x89]))
     = ''caf'' @ [CHR 0xC3, CHR 0xA9]"
  "replace_spaces (toLowerCase latin1_lowercase (''caf'' @ [CHR 0xC3, CHR 0xA9]))
     = ''caf'' @ [CHR 0xC3, CHR 0xA9]"
  by code_simp+

lemma adTypes_env_accent:
  "adTypes (resolve_config (config_reply env_accent 0) e)
     = [adTypeSpec (''CAF'' @ [CHR 0xC3, CHR 0x89]) ''a'',
        adTypeSpec (''caf'' @ [CHR 0xC3, CHR 0xA9]) ''b'']"
  by (simp add: env_accent_def env_ok_def resolve_parsed response_ok_def config_accent_def
      get_def apply_adTypes_def)

lemma batch_ids_accented:
  "map ad_id (generatedAds (generateAdVariations env_accent ''Blue ceramic mug''
       (Readable ''data:image/png;base64,AAAA'') session_start))
     = [''gen-1000-caf'' @ [CHR 0xC3, CHR 0xA9], ''gen-1000-caf'' @ [CHR 0xC3, CHR 0xA9]]"
proof -
  have i: "import_reply env_accent = None"
    by (simp add: env_accent_def env_ok_def)
  have e: "enhancePrompt (credential env_accent) (chat_reply env_accent) ''Blue ceramic mug''
     = Inr ''A glossy blue mug.''"
    by (simp add: env_accent_def env_ok_def enhancePrompt_def key_test completion_content_chat_ok)
  have b: "batch env_accent b u 0 [adTypeSpec (''CAF'' @ [CHR 0xC3, CHR 0x89]) ''a'',
        adTypeSpec (''caf'' @ [CHR 0xC3, CHR 0xA9]) ''b''] []
     = Inr [\<lparr>ad_id = ''gen-1000-caf'' @ [CHR 0xC3, CHR 0xA9],
              imageUrl = JStr ''https://cdn.example/new.png'',
              rating = None, adType = Some (''CAF'' @ [CHR 0xC3, CHR 0x89]), isRegenerating = None\<rparr>,
            \<lparr>ad_id = ''gen-1000-caf'' @ [CHR 0xC3, CHR 0xA9],
              imageUrl = JStr ''https://cdn.example/new.png'',
              rating = None, adType = Some (''caf'' @ [CHR 0xC3, CHR 0xA9]), isRegenerating = None\<rparr>]"
    for b u
    using accent_slugs
    by (simp add: env_accent_def env_ok_def adTypeSpec_def member_def get_def key_test
      generateImages_single request_edit_ok ad_label_def new_id_def show_nat_1000)
  show ?thesis
    unfolding generateAdVariations_late(1) [OF i e fileToDataUrl.simps(1)]
      adTypes_env_accent b
    by simp
qed

lemma import_env_ok: "import_reply env_ok = None"
  by (simp add: env_ok_def)

lemma enhance_env_ok:
  "enhancePrompt (credential env_ok) (chat_reply env_ok) ''Blue ceramic mug''
     = Inr ''A glossy blue mug.''"
  by (simp add: env_ok_def enhancePrompt_def key_test completion_content_chat_ok)

theorem batch_ids_unique_witness:
  "distinct (map ad_id (generatedAds (generateAdVariations env_ok ''Blue ceramic mug''
       (Readable ''data:image/png;base64,AAAA'') session_start))) \<and>
   distinct (map ad_id (generatedAds (generateAdVariations env_400 ''Blue ceramic mug''
       (Readable ''data:image/png;base64,AAAA'') session_start))) \<and>
   map ad_id (generatedAds (apply_operations [Rate ''2'' 5, Regenerate env_nokey ''1'']
       (generateAdVariations env_400 ''Blue ceramic mug''
          (Readable ''data:image/png;base64,AAAA'') session_start)))
     = [''1'', ''2'', ''3'']"
proof -
  have types_ok: "adTypes (resolve_config (config_reply env_ok 0) ''A glossy blue mug.'') = default_adTypes"
    by (simp add: env_ok_def resolve_unreachable)
  have types_400: "adTypes (resolve_config (config_reply env_400 0) ''A glossy blue mug.'') = default_adTypes"
    by (simp add: env_400_def env_ok_def resolve_unreachable)
  have a: "distinct (map ad_id (generatedAds (generateAdVariations env_ok ''Blue ceramic mug''
       (Readable ''data:image/png;base64,AAAA'') session_start)))"
    using batch_ids_unique [OF import_env_ok enhance_env_ok, of "Readable ''data:image/png;base64,AAAA''"
        "''data:image/png;base64,AAAA''" session_start] types_ok
    by simp
  have b: "distinct (map ad_id (generatedAds (generateAdVariations env_400 ''Blue ceramic mug''
       (Readable ''data:image/png;base64,AAAA'') session_start)))"
    using batch_ids_unique [OF import_env_400 enhance_env_400, of "Readable ''data:image/png;base64,AAAA''"
        "''data:image/png;base64,AAAA''" session_start] types_400
    by simp
  have fb: "generatedAds (generateAdVariations env_400 ''Blue ceramic mug''
       (Readable ''data:image/png;base64,AAAA'') session_start) = fallbackAds"
    using generateAdVariations_invalid_image(2) [OF import_env_400 enhance_env_400, of "Readable ''data:image/png;base64,AAAA''"
      "''data:image/png;base64,AAAA''" "[]" "adTypeSpec ''Creative Concept Ad'' creative_prompt"
      "[adTypeSpec ''Benefit Highlight Ad'' benefit_prompt,
          adTypeSpec ''Ecommerce-Style Ad'' ecommerce_prompt]" "[]" session_start]
      types_env_400
    by (simp add: adTypeSpec_def env_400_def)
  have c: "map ad_id (generatedAds (apply_operations [Rate ''2'' 5, Regenerate env_nokey ''1'']
       (generateAdVariations env_400 ''Blue ceramic mug''
          (Readable ''data:image/png;base64,AAAA'') session_start)))
     = [''1'', ''2'', ''3'']"
    using batch_ids_unique [OF import_env_400 enhance_env_400, of "Readable ''data:image/png;base64,AAAA''"
        "''data:image/png;base64,AAAA''" session_start]
    by (simp add: fb fallbackAds_def)
  from a b c show ?thesis by simp
qed

section \<open>Delays between requests\<close>

lemma request_success_events:
  "snd (request outcome p img sz) = Inr url \<Longrightarrow>
   fst (request outcome p img sz) = [FetchBlob (blob_url img), Post p sz]"
  by (cases outcome) (simp_all add: request_def)

lemma request_no_delay: "filter is_delay (fst (request outcome p img sz)) = []"
  by (cases outcome) (simp_all add: request_def)

lemma request_last: "fst (request outcome p img sz) \<noteq> [] \<and> \<not> is_delay (last (fst (request outcome p img sz)))"
  by (cases outcome) (simp_all add: request_def)

lemma images_loop_success:
  "images_loop reqs p img sz n i acc tr = (tr', Inr urls) \<Longrightarrow> i < n \<Longrightarrow>
   tr' = tr @ concat (map (\<lambda>j. pass p img sz n j @ [Delay 1000]) [i..<n - 1]) @ pass p img sz n (n - 1) \<and>
   length urls = length acc + (n - i)"
proof (induction reqs p img sz n i acc tr rule: images_loop.induct)
  case (1 reqs p img sz n i acc tr)
  obtain evs r where req: "request (reqs i) (variedPrompt p i n) img sz = (evs, r)"
    by (cases "request (reqs i) (variedPrompt p i n) img sz")
  from "1.prems" req obtain url where r: "r = Inr url"
    by (subst (asm) images_loop.simps) (auto split: sum.splits)
  with req have evs: "evs = pass p img sz n i"
    using request_success_events [of "reqs i" "variedPrompt p i n" img sz url]
    by (simp add: pass_def)
  from "1.prems" req r have rec: "images_loop reqs p img sz n (Suc i) (acc @ [url])
       (tr @ evs @ (if i < n - 1 then [Delay 1000] else [])) = (tr', Inr urls)"
    by (subst (asm) images_loop.simps) simp
  show ?case
  proof (cases "i < n - 1")
    case True
    then have "Suc i < n" by simp
    from "1.IH" [OF \<open>i < n\<close> req [symmetric] r rec this] True
    have "tr' = (tr @ evs @ [Delay 1000]) @
        concat (map (\<lambda>j. pass p img sz n j @ [Delay 1000]) [Suc i..<n - 1]) @ pass p img sz n (n - 1)"
      and "length urls = length (acc @ [url]) + (n - Suc i)"
      by simp_all
    moreover from True have "[i..<n - 1] = i # [Suc i..<n - 1]"
      by (simp add: upt_conv_Cons)
    ultimately show ?thesis using \<open>i < n\<close> by (simp add: evs)
  next
    case False
    with \<open>i < n\<close> have i: "i = n - 1" "Suc i = n" by simp_all
    with rec False have "tr' = tr @ evs" "urls = acc @ [url]"
      by (simp_all add: images_loop_done)
    with i show ?thesis by (simp add: evs)
  qed
qed

lemma images_loop_failure:
  "images_loop reqs p img sz n i acc tr = (tr', Inl e) \<Longrightarrow>
   \<exists>k. i \<le> k \<and> k < n \<and>
     tr' = tr @ concat (map (\<lambda>j. pass p img sz n j @ [Delay 1000]) [i..<k])
              @ fst (request (reqs k) (variedPrompt p k n) img sz) \<and>
     snd (request (reqs k) (variedPrompt p k n) img sz) = Inl e"
proof (induction reqs p img sz n i acc tr rule: images_loop.induct)
  case (1 reqs p img sz n i acc tr)
  from "1.prems" have "i < n"
    by (subst (asm) images_loop.simps) (simp split: if_splits)
  obtain evs r where req: "request (reqs i) (variedPrompt p i n) img sz = (evs, r)"
    by (cases "request (reqs i) (variedPrompt p i n) img sz")
  show ?case
  proof (cases r)
    case (Inl x)
    with "1.prems" req \<open>i < n\<close> have "tr' = tr @ evs" "x = e"
      by (subst (asm) images_loop.simps, simp)+
    with req Inl \<open>i < n\<close> show ?thesis
      by (intro exI [of _ i]) simp
  next
    case (Inr url)
    with "1.prems" req \<open>i < n\<close> have rec: "images_loop reqs p img sz n (Suc i) (acc @ [url])
       (tr @ evs @ (if i < n - 1 then [Delay 1000] else [])) = (tr', Inl e)"
      by (subst (asm) images_loop.simps) simp
    then have "Suc i < n"
      by (subst (asm) images_loop.simps) (simp split: if_splits)
    then have d: "i < n - 1" by simp
    from Inr req have evs: "evs = pass p img sz n i"
      using request_success_events [of "reqs i" "variedPrompt p i n" img sz url]
      by (simp add: pass_def)
    from "1.IH" [OF \<open>i < n\<close> req [symmetric] Inr rec] obtain k where
      k: "Suc i \<le> k" "k < n"
        "tr' = (tr @ evs @ (if i < n - 1 then [Delay 1000] else [])) @
           concat (map (\<lambda>j. pass p img sz n j @ [Delay 1000]) [Suc i..<k])
              @ fst (request (reqs k) (variedPrompt p k n) img sz)"
        "snd (request (reqs k) (variedPrompt p k n) img sz) = Inl e"
      by blast
    from k(1) have "[i..<k] = i # [Suc i..<k]"
      by (simp add: upt_conv_Cons)
    with k d evs show ?thesis
      by (intro exI [of _ k]) simp
  qed
qed

lemma delays_append: "delays (xs @ ys) = delays xs + delays ys"
  by (simp add: delays_def)

lemma posts_append: "posts (xs @ ys) = posts xs + posts ys"
  by (simp add: posts_def)

lemma delays_pass: "delays (pass p img sz n j) = 0"
  by (simp add: delays_def pass_def)

lemma posts_pass: "posts (pass p img sz n j) = 1"
  by (simp add: posts_def pass_def)

lemma delays_request: "delays (fst (request outcome p img sz)) = 0"
  by (simp add: delays_def request_no_delay)

lemma delays_passes:
  "delays (concat (map (\<lambda>j. pass p img sz n j @ [Delay 1000]) [0..<k])) = k"
  by (induction k) (simp_all add: delays_def pass_def)

lemma posts_passes:
  "posts (concat (map (\<lambda>j. pass p img sz n j @ [Delay 1000]) [0..<k])) = k"
  by (induction k) (simp_all add: posts_def pass_def)

text \<open>
  C8, as the code has it. A call without a credential issues nothing. A call with count
  n of at least 1 that returns has made n passes, each a blob fetch and a POST, with a
  delay of 1000 milliseconds after each pass but the last: n POSTs, exactly n - 1 delays,
  none after the final request. A call that fails, at pass k counted from 0, has made k
  full passes, each followed by the delay, and then the fetches of the failing pass: k
  delays, and none after the failing request. In both cases the trace does not end with
  a delay.
\<close>

theorem generateImages_delays:
  assumes "generateImages apiKey reqs prompt img n sz = (trace, result)" and "1 \<le> n"
  shows
  "(\<not> key_present apiKey \<longrightarrow>
      trace = [] \<and> result = Inl (Error ''OpenAI API key is not configured'')) \<and>
   (key_present apiKey \<longrightarrow>
      (\<forall>urls. result = Inr urls \<longrightarrow>
         length urls = n \<and>
         trace = concat (map (\<lambda>j. pass prompt img sz n j @ [Delay 1000]) [0..<n - 1])
                   @ pass prompt img sz n (n - 1) \<and>
         posts trace = n \<and> delays trace = n - 1) \<and>
      (\<forall>err. result = Inl err \<longrightarrow>
         (\<exists>k<n. trace = concat (map (\<lambda>j. pass prompt img sz n j @ [Delay 1000]) [0..<k])
                           @ fst (request (reqs k) (variedPrompt prompt k n) img sz) \<and>
                (\<exists>e. snd (request (reqs k) (variedPrompt prompt k n) img sz) = Inl e) \<and>
                delays trace = k)) \<and>
      trace \<noteq> [] \<and> \<not> is_delay (last trace))"
proof (cases "key_present apiKey")
  case False
  with assms(1) show ?thesis by (simp add: generateImages_def)
next
  case True
  obtain tr r where loop: "images_loop reqs prompt img sz n 0 [] [] = (tr, r)"
    by (cases "images_loop reqs prompt img sz n 0 [] []")
  from assms(2) have n: "0 < n" by simp
  show ?thesis
  proof (cases r)
    case (Inr urls)
    from images_loop_success [OF loop [unfolded Inr] n]
    have shape: "tr = concat (map (\<lambda>j. pass prompt img sz n j @ [Delay 1000]) [0..<n - 1])
                   @ pass prompt img sz n (n - 1)"
      and len: "length urls = n"
      by simp_all
    from len n have "urls \<noteq> []" by auto
    with assms(1) True loop Inr have res: "trace = tr" "result = Inr urls"
      by (simp_all add: generateImages_def)
    have "posts tr = n" "delays tr = n - 1"
      using n by (simp_all add: shape posts_append delays_append posts_passes delays_passes
          posts_pass delays_pass)
    moreover have "tr \<noteq> []" "\<not> is_delay (last tr)"
      unfolding shape by (simp_all add: pass_def)
    ultimately show ?thesis using True res shape len by simp
  next
    case (Inl e)
    from images_loop_failure [OF loop [unfolded Inl]] obtain k where
      k: "k < n"
         "tr = concat (map (\<lambda>j. pass prompt img sz n j @ [Delay 1000]) [0..<k])
                 @ fst (request (reqs k) (variedPrompt prompt k n) img sz)"
         "snd (request (reqs k) (variedPrompt prompt k n) img sz) = Inl e"
      by auto
    from assms(1) True loop Inl have res: "trace = tr" "result = Inl (Error (image_error e))"
      by (simp_all add: generateImages_def)
    have d: "delays tr = k"
      by (simp add: k(2) delays_append delays_passes delays_request)
    have "tr \<noteq> []" "\<not> is_delay (last tr)"
      unfolding k(2) using request_last [of "reqs k" "variedPrompt prompt k n" img sz]
      by simp_all
    with True res k d show ?thesis by auto
  qed
qed

lemma show_nat_small:
  "show_nat (Suc 0) = ''1''" "show_nat (Suc (Suc 0)) = ''2''"
  "show_nat (Suc (Suc (Suc 0))) = ''3''" "show_nat 2 = ''2''" "show_nat 3 = ''3''"
  by (simp_all add: show_nat_digit digit_def)

lemma images_three_ok:
  "generateImages (Some ''sk-test'') (\<lambda>i. Responds 200 (Some edit_ok)) ''Ad'' ''AAAA'' 3 ''1024x1024''
     = ([FetchBlob ''data:image/png;base64,AAAA'', Post ''Ad (Variation 1 of 3)'' ''1024x1024'',
         Delay 1000,
         FetchBlob ''data:image/png;base64,AAAA'', Post ''Ad (Variation 2 of 3)'' ''1024x1024'',
         Delay 1000,
         FetchBlob ''data:image/png;base64,AAAA'', Post ''Ad (Variation 3 of 3)'' ''1024x1024''],
        Inr [JStr ''https://cdn.example/new.png'', JStr ''https://cdn.example/new.png'',
             JStr ''https://cdn.example/new.png''])"
  by (simp add: generateImages_def key_test images_loop.simps request_def response_ok_def
      extract_edit_ok blob_url_def startsWith_def variedPrompt_def show_nat_small)

lemma images_second_refused:
  "generateImages (Some ''sk-test'')
       (\<lambda>i. if i = 1 then Responds 400 (Some invalid_image_body) else Responds 200 (Some edit_ok))
       ''Ad'' ''AAAA'' 3 ''1024x1024''
     = ([FetchBlob ''data:image/png;base64,AAAA'', Post ''Ad (Variation 1 of 3)'' ''1024x1024'',
         Delay 1000,
         FetchBlob ''data:image/png;base64,AAAA'', Post ''Ad (Variation 2 of 3)'' ''1024x1024''],
        Inl (Error ''invalid image (Status: 400)''))"
  by (simp add: generateImages_def key_test images_loop.simps request_def response_ok_def
      extract_edit_ok api_error_invalid_image blob_url_def startsWith_def variedPrompt_def
      show_nat_small show_nat_400)

lemma images_first_refused:
  "generateImages (Some ''sk-test'') (\<lambda>i. Responds 400 (Some invalid_image_body))
       ''Ad'' ''AAAA'' 2 ''1024x1024''
     = ([FetchBlob ''data:image/png;base64,AAAA'', Post ''Ad (Variation 1 of 2)'' ''1024x1024''],
        Inl (Error ''invalid image (Status: 400)''))"
  by (simp add: generateImages_def key_test images_loop.simps request_def response_ok_def
      api_error_invalid_image blob_url_def startsWith_def variedPrompt_def
      show_nat_small show_nat_400)

theorem generateImages_delays_witness:
  "delays (fst (generateImages (Some ''sk-test'') (\<lambda>i. Responds 200 (Some edit_ok))
                  ''Ad'' ''AAAA'' 3 ''1024x1024'')) = 2 \<and>
   posts (fst (generateImages (Some ''sk-test'') (\<lambda>i. Responds 200 (Some edit_ok))
                  ''Ad'' ''AAAA'' 3 ''1024x1024'')) = 3 \<and>
   \<not> is_delay (last (fst (generateImages (Some ''sk-test'') (\<lambda>i. Responds 200 (Some edit_ok))
                  ''Ad'' ''AAAA'' 3 ''1024x1024''))) \<and>
   \<not> is_delay (last (fst (generateImages (Some ''sk-test'')
       (\<lambda>i. if i = 1 then Responds 400 (Some invalid_image_body) else Responds 200 (Some edit_ok))
       ''Ad'' ''AAAA'' 3 ''1024x1024''))) \<and>
   fst (generateImages None (\<lambda>i. Responds 200 (Some edit_ok)) ''Ad'' ''AAAA'' 3 ''1024x1024'') = [] \<and>
   delays (fst (generateImages (Some ''sk-test'')
       (\<lambda>i. if i = 1 then Responds 400 (Some invalid_image_body) else Responds 200 (Some edit_ok))
       ''Ad'' ''AAAA'' 3 ''1024x1024'')) = 1"
proof -
  let ?ok = "generateImages (Some ''sk-test'') (\<lambda>i. Responds 200 (Some edit_ok))
                  ''Ad'' ''AAAA'' 3 ''1024x1024''"
  let ?refused = "generateImages (Some ''sk-test'')
       (\<lambda>i. if i = 1 then Responds 400 (Some invalid_image_body) else Responds 200 (Some edit_ok))
       ''Ad'' ''AAAA'' 3 ''1024x1024''"
  let ?nokey = "generateImages None (\<lambda>i. Responds 200 (Some edit_ok)) ''Ad'' ''AAAA'' 3 ''1024x1024''"
  have three: "(1::nat) \<le> 3" by simp
  have none: "\<not> key_present None"
    by (simp add: key_present_def)
  obtain urls where ok: "snd ?ok = Inr urls"
    by (simp add: images_three_ok)
  have a: "delays (fst ?ok) = 3 - 1 \<and> posts (fst ?ok) = 3 \<and> \<not> is_delay (last (fst ?ok))"
    using generateImages_delays [of "Some ''sk-test''" "\<lambda>i. Responds 200 (Some edit_ok)"
        "''Ad''" "''AAAA''" 3 "''1024x1024''" "fst ?ok" "snd ?ok", OF _ three] key_test ok
    by (metis prod.collapse)
  have b: "\<not> is_delay (last (fst ?refused))"
    using generateImages_delays [of "Some ''sk-test''"
        "\<lambda>i. if i = 1 then Responds 400 (Some invalid_image_body) else Responds 200 (Some edit_ok)"
        "''Ad''" "''AAAA''" 3 "''1024x1024''" "fst ?refused" "snd ?refused", OF _ three] key_test
    by (metis prod.collapse)
  have c: "fst ?nokey = []"
    using generateImages_delays [of None "\<lambda>i. Responds 200 (Some edit_ok)" "''Ad''" "''AAAA''" 3
        "''1024x1024''" "fst ?nokey" "snd ?nokey", OF _ three] none
    by (metis prod.collapse)
  have d: "delays (fst ?refused) = 1"
    unfolding images_second_refused by (simp add: delays_def)
  from a b c d show ?thesis by simp
qed

text \<open>The claim as the spec words it fails for a call that does not return: with
  count 2 and the first request refused there is no delay at all.\<close>

theorem generateImages_delays_counterexample:
  "snd (generateImages (Some ''sk-test'') (\<lambda>i. Responds 400 (Some invalid_image_body))
          ''Ad'' ''AAAA'' 2 ''1024x1024'') = Inl (Error ''invalid image (Status: 400)'') \<and>
   delays (fst (generateImages (Some ''sk-test'') (\<lambda>i. Responds 400 (Some invalid_image_body))
          ''Ad'' ''AAAA'' 2 ''1024x1024'')) = 0 \<and>
   delays (fst (generateImages (Some ''sk-test'') (\<lambda>i. Responds 400 (Some invalid_image_body))
          ''Ad'' ''AAAA'' 2 ''1024x1024'')) \<noteq> 2 - 1"
  by (simp add: images_first_refused delays_def)

section \<open>The response parser\<close>

lemma get_first: "get (JArr (x # xs)) ''0'' = Some x"
  by (simp add: get_def upt_rec [of 0])

lemma get_first_empty: "get (JArr []) ''0'' = None"
  by (simp add: get_def)

lemma findUrls_sound:
  "s \<in> set (findUrls d) \<Longrightarrow>
   value_in (JStr s) d \<and> (startsWith s ''http'' \<or> startsWith s ''data:'')"
proof (induction d)
  case (JArr xs)
  from JArr.prems obtain v where v: "v \<in> set xs"
    and s: "s \<in> set (case v of
          JStr s \<Rightarrow> (if startsWith s ''http'' \<or> startsWith s ''data:'' then [s] else [])
        | JObj _ \<Rightarrow> findUrls v
        | JArr _ \<Rightarrow> findUrls v
        | _ \<Rightarrow> [])"
    by auto
  show ?case
  proof (cases v)
    case (JStr t)
    with s have "s = t" "startsWith s ''http'' \<or> startsWith s ''data:''"
      by (auto split: if_splits)
    with v JStr show ?thesis by (auto intro: value_in.element)
  next
    case (JArr ys)
    with s have "s \<in> set (findUrls v)" by simp
    with JArr.IH [OF v] v show ?thesis by (auto intro: value_in.under_element)
  next
    case (JObj kvs)
    with s have "s \<in> set (findUrls v)" by simp
    with JArr.IH [OF v] v show ?thesis by (auto intro: value_in.under_element)
  qed (use s in simp_all)
next
  case (JObj kvs)
  from JObj.prems obtain k v where v: "(k, v) \<in> set kvs"
    and s: "s \<in> set (case v of
          JStr s \<Rightarrow> (if startsWith s ''http'' \<or> startsWith s ''data:'' then [s] else [])
        | JObj _ \<Rightarrow> findUrls v
        | JArr _ \<Rightarrow> findUrls v
        | _ \<Rightarrow> [])"
    by auto
  have ih: "s \<in> set (findUrls v) \<Longrightarrow>
            value_in (JStr s) v \<and> (startsWith s ''http'' \<or> startsWith s ''data:'')"
    using JObj.IH [OF v, of v] by simp
  show ?case
  proof (cases v)
    case (JStr t)
    with s have "s = t" "startsWith s ''http'' \<or> startsWith s ''data:''"
      by (auto split: if_splits)
    with v JStr show ?thesis by (auto intro: value_in.property)
  next
    case (JArr ys)
    with s have "s \<in> set (findUrls v)" by simp
    with ih v show ?thesis by (auto intro: value_in.under_property)
  next
    case (JObj kvs')
    with s have "s \<in> set (findUrls v)" by simp
    with ih v show ?thesis by (auto intro: value_in.under_property)
  qed (use s in simp_all)
qed simp_all

lemma findUrls_inner:
  "s \<in> set (findUrls inner) \<Longrightarrow>
   (case inner of
      JStr s \<Rightarrow> (if startsWith s ''http'' \<or> startsWith s ''data:'' then [s] else [])
    | JObj _ \<Rightarrow> findUrls inner
    | JArr _ \<Rightarrow> findUrls inner
    | _ \<Rightarrow> []) = findUrls inner"
  by (cases inner) auto

lemma findUrls_complete:
  "value_in v d \<Longrightarrow> v = JStr s \<Longrightarrow> startsWith s ''http'' \<or> startsWith s ''data:'' \<Longrightarrow>
   s \<in> set (findUrls d)"
proof (induction rule: value_in.induct)
  case (property key "value" kvs)
  then show ?case by (auto intro!: bexI [of _ "(key, JStr s)"])
next
  case (element "value" xs)
  then show ?case by (auto intro!: bexI [of _ "JStr s"])
next
  case (under_property key inner kvs "value")
  then have s: "s \<in> set (findUrls inner)" by simp
  with under_property.hyps(1) show ?case
    by (auto simp: findUrls_inner intro!: bexI [of _ "(key, inner)"])
next
  case (under_element inner xs "value")
  then have s: "s \<in> set (findUrls inner)" by simp
  with under_element.hyps(1) show ?case
    by (auto simp: findUrls_inner intro!: bexI [of _ inner])
qed

lemma findUrls_set:
  "set (findUrls d) = {s. value_in (JStr s) d \<and> (startsWith s ''http'' \<or> startsWith s ''data:'')}"
  using findUrls_sound findUrls_complete by blast

lemma extract_image_list:
  "data \<noteq> JNull \<Longrightarrow> as_array (get data ''data'') = Some items \<Longrightarrow>
   extract_image data = first_item (get (JArr items) ''0'')"
  by (simp add: extract_image_def member_not_null)

lemma extract_image_scan:
  "data \<noteq> JNull \<Longrightarrow> as_array (get data ''data'') = None \<Longrightarrow>
   extract_image data =
     (case findUrls data of
        [] \<Rightarrow> Inl (Plain (Error ''API response missing image data - no URLs found in response''))
      | url # others \<Rightarrow> Inr (JStr url))"
  by (simp add: extract_image_def member_not_null)

text \<open>
  C3, as the code has it. For a parsed response that is not \<open>null\<close>: when \<open>data\<close> is a
  list whose first entry is truthy, the parser takes the \<open>url\<close> of that entry when it
  is truthy, else its \<open>b64_json\<close> as a PNG data URL, else the first own property of that
  entry whose value is a string starting with "http" or "data:", and else fails with
  "API response missing image data - no URL or base64 found", without scanning the rest
  of the response; when the list is empty or its first entry is falsy, it fails with
  "API response contains empty data array"; and only when \<open>data\<close> is no list does it
  scan the whole response recursively, taking the first match and failing with
  "API response missing image data - no URLs found in response" when there is none. The
  scan finds exactly the strings, at any depth of objects and arrays, that start with
  "http" or "data:". A \<open>null\<close> response fails on reading \<open>data\<close>.
\<close>

theorem extract_image_cases:
  "extract_image JNull = Inl (Plain (cannot_read (Some JNull) ''data'')) \<and>
   (data \<noteq> JNull \<longrightarrow>
     (\<forall>item rest. as_array (get data ''data'') = Some (item # rest) \<and> truthy item \<longrightarrow>
        (\<forall>url. get item ''url'' = Some url \<and> truthy url \<longrightarrow> extract_image data = Inr url) \<and>
        (\<not> truthy_val (get item ''url'') \<and> truthy_val (get item ''b64_json'') \<longrightarrow>
           extract_image data
             = Inr (JStr (''data:image/png;base64,'' @ toString_val (get item ''b64_json'')))) \<and>
        (\<not> truthy_val (get item ''url'') \<and> \<not> truthy_val (get item ''b64_json'') \<longrightarrow>
           (\<forall>key others locator.
              filter (\<lambda>key. is_locator (get item key)) (keys item) = key # others \<and>
              get item key = Some locator \<longrightarrow> extract_image data = Inr locator) \<and>
           (filter (\<lambda>key. is_locator (get item key)) (keys item) = [] \<longrightarrow>
              extract_image data = Inl (Plain (Error
                ''API response missing image data - no URL or base64 found''))))) \<and>
     (as_array (get data ''data'') = Some [] \<or>
      (\<exists>item rest. as_array (get data ''data'') = Some (item # rest) \<and> \<not> truthy item) \<longrightarrow>
        extract_image data = Inl (Plain (Error ''API response contains empty data array''))) \<and>
     (as_array (get data ''data'') = None \<longrightarrow>
        (\<forall>url others. findUrls data = url # others \<longrightarrow> extract_image data = Inr (JStr url)) \<and>
        (findUrls data = [] \<longrightarrow>
           extract_image data = Inl (Plain (Error
             ''API response missing image data - no URLs found in response''))))) \<and>
   set (findUrls data)
     = {s. value_in (JStr s) data \<and> (startsWith s ''http'' \<or> startsWith s ''data:'')}"
proof (intro conjI impI allI)
  show "extract_image JNull = Inl (Plain (cannot_read (Some JNull) ''data''))"
    by (simp add: extract_image_def member_def)
next
  fix item rest url
  assume "data \<noteq> JNull" "as_array (get data ''data'') = Some (item # rest) \<and> truthy item"
    "get item ''url'' = Some url \<and> truthy url"
  then show "extract_image data = Inr url"
    by (simp add: extract_image_list get_first first_item_def)
next
  fix item rest
  assume "data \<noteq> JNull" "as_array (get data ''data'') = Some (item # rest) \<and> truthy item"
    "\<not> truthy_val (get item ''url'') \<and> truthy_val (get item ''b64_json'')"
  then show "extract_image data
             = Inr (JStr (''data:image/png;base64,'' @ toString_val (get item ''b64_json'')))"
    by (simp add: extract_image_list get_first first_item_def)
next
  fix item rest key others locator
  assume "data \<noteq> JNull" "as_array (get data ''data'') = Some (item # rest) \<and> truthy item"
    "\<not> truthy_val (get item ''url'') \<and> \<not> truthy_val (get item ''b64_json'')"
    "filter (\<lambda>key. is_locator (get item key)) (keys item) = key # others \<and>
              get item key = Some locator"
  then show "extract_image data = Inr locator"
    by (simp add: extract_image_list get_first first_item_def)
next
  fix item rest
  assume "data \<noteq> JNull" "as_array (get data ''data'') = Some (item # rest) \<and> truthy item"
    "\<not> truthy_val (get item ''url'') \<and> \<not> truthy_val (get item ''b64_json'')"
    "filter (\<lambda>key. is_locator (get item key)) (keys item) = []"
  then show "extract_image data = Inl (Plain (Error
                ''API response missing image data - no URL or base64 found''))"
    by (simp add: extract_image_list get_first first_item_def)
next
  assume "data \<noteq> JNull" "as_array (get data ''data'') = Some [] \<or>
      (\<exists>item rest. as_array (get data ''data'') = Some (item # rest) \<and> \<not> truthy item)"
  then show "extract_image data = Inl (Plain (Error ''API response contains empty data array''))"
    by (auto simp: extract_image_list get_first get_first_empty first_item_def)
next
  fix url others
  assume "data \<noteq> JNull" "as_array (get data ''data'') = None" "findUrls data = url # others"
  then show "extract_image data = Inr (JStr url)"
    by (simp add: extract_image_scan)
next
  assume "data \<noteq> JNull" "as_array (get data ''data'') = None" "findUrls data = []"
  then show "extract_image data = Inl (Plain (Error
             ''API response missing image data - no URLs found in response''))"
    by (simp add: extract_image_scan)
next
  show "set (findUrls data)
     = {s. value_in (JStr s) data \<and> (startsWith s ''http'' \<or> startsWith s ''data:'')}"
    by (rule findUrls_set)
qed

lemma findUrls_no_list:
  "findUrls response_no_list = [''data:image/png;base64,QUJD'', ''https://cdn.example/c.png'']"
  by (simp add: response_no_list_def startsWith_def)

theorem extract_image_cases_witness:
  "extract_image edit_ok = Inr (JStr ''https://cdn.example/new.png'') \<and>
   extract_image response_b64 = Inr (JStr ''data:image/png;base64,iVBORw0KGgo='') \<and>
   extract_image response_other_key = Inr (JStr ''https://cdn.example/b.png'') \<and>
   extract_image response_empty_list
     = Inl (Plain (Error ''API response contains empty data array'')) \<and>
   extract_image response_no_list = Inr (JStr ''data:image/png;base64,QUJD'') \<and>
   extract_image (JObj [(''created'', JNum (Nonzero ''1700000000''))])
     = Inl (Plain (Error ''API response missing image data - no URLs found in response'')) \<and>
   value_in (JStr ''https://cdn.example/c.png'') response_no_list"
proof -
  have a: "extract_image edit_ok = Inr (JStr ''https://cdn.example/new.png'')"
    using extract_image_cases [of edit_ok]
    by (simp add: edit_ok_def get_def)
  have b: "extract_image response_b64 = Inr (JStr ''data:image/png;base64,iVBORw0KGgo='')"
    using extract_image_cases [of response_b64]
    by (simp add: response_b64_def get_def)
  have "keys (JObj [(''revised_prompt'', JStr ''a mug''),
                    (''image_url'', JStr ''https://cdn.example/b.png'')])
          = [''revised_prompt'', ''image_url'']"
    by (simp add: keys_def)
  then have c: "extract_image response_other_key = Inr (JStr ''https://cdn.example/b.png'')"
    using extract_image_cases [of response_other_key]
    by (simp add: response_other_key_def get_def is_locator_def startsWith_def)
  have d: "extract_image response_empty_list
     = Inl (Plain (Error ''API response contains empty data array''))"
    using extract_image_cases [of response_empty_list]
    by (simp add: response_empty_list_def get_def)
  have e: "extract_image response_no_list = Inr (JStr ''data:image/png;base64,QUJD'')"
    using extract_image_cases [of response_no_list] findUrls_no_list
    by (simp add: response_no_list_def get_def)
  have f: "extract_image (JObj [(''created'', JNum (Nonzero ''1700000000''))])
     = Inl (Plain (Error ''API response missing image data - no URLs found in response''))"
    using extract_image_cases [of "JObj [(''created'', JNum (Nonzero ''1700000000''))]"]
    by (simp add: get_def)
  have "''https://cdn.example/c.png'' \<in> set (findUrls response_no_list)"
    by (simp add: findUrls_no_list)
  then have g: "value_in (JStr ''https://cdn.example/c.png'') response_no_list"
    using extract_image_cases [of response_no_list] by blast
  from a b c d e f g show ?thesis by simp
qed

text \<open>The claim as the spec words it fails where the \<open>data\<close> list is there without a
  usable first entry: a locator elsewhere in the response, which the recursive scan
  would find, is not looked for.\<close>

theorem extract_image_scan_counterexample:
  "extract_image response_nested
     = Inl (Plain (Error ''API response missing image data - no URL or base64 found'')) \<and>
   extract_image_as_specified response_nested = Inr (JStr ''https://cdn.example/a.png'') \<and>
   extract_image response_empty_list
     = Inl (Plain (Error ''API response contains empty data array'')) \<and>
   extract_image_as_specified response_empty_list = Inr (JStr ''https://cdn.example/a.png'')"
proof -
  have a: "extract_image response_nested
     = Inl (Plain (Error ''API response missing image data - no URL or base64 found''))"
    by (simp add: extract_image_def response_nested_def member_def get_def first_item_def
        keys_def is_locator_def startsWith_def)
  have b: "extract_image_as_specified response_nested = Inr (JStr ''https://cdn.example/a.png'')"
    by (simp add: extract_image_as_specified_def primary_locator_def response_nested_def get_def
        startsWith_def)
  have c: "extract_image response_empty_list
     = Inl (Plain (Error ''API response contains empty data array''))"
    by (simp add: extract_image_def response_empty_list_def member_def get_def first_item_def)
  have d: "extract_image_as_specified response_empty_list = Inr (JStr ''https://cdn.example/a.png'')"
    by (simp add: extract_image_as_specified_def primary_locator_def response_empty_list_def
        get_def startsWith_def)
  from a b c d show ?thesis by simp
qed

end
